theory Spec2Isabelle
  imports Main
begin

section \<open>JavaScript values\<close>

text \<open>
  The program is a React component (\<^verbatim>\<open>src/App.tsx\<close>) and a client of an external
  inference service (\<^verbatim>\<open>src/services/geminiService.ts\<close>). What the service answers is
  handed to \<^verbatim>\<open>JSON.parse\<close> and used without any check of its shape, so the
  values the program holds are JavaScript values, not the records its TypeScript
  interfaces describe.

  Strings are HOL strings (the program's own literals are ASCII). A number is kept by its
  canonical decimal rendering (what \<^verbatim>\<open>String(n)\<close> gives), which determines all the
  program does with a number: print it and test it for truth. An object is the list of
  its own properties, each key once. The values are those \<^verbatim>\<open>JSON.parse\<close> can return
  and \<^verbatim>\<open>undefined\<close>: none of them is a function.
\<close>

datatype js_value =
    JUndefined
  | JNull
  | JBool bool
  | JNum string
  | JStr string
  | JArr "js_value list"
  | JObj "(string \<times> js_value) list"

datatype js_error = TypeError | SyntaxError | ServiceError

text \<open>Truthiness, as \<^verbatim>\<open>if (v)\<close>, \<^verbatim>\<open>!v\<close> and \<^verbatim>\<open>v || w\<close> test it.\<close>

fun truthy :: "js_value \<Rightarrow> bool" where
  "truthy JUndefined = False"
| "truthy JNull = False"
| "truthy (JBool b) = b"
| "truthy (JNum n) = (n \<noteq> ''0'' \<and> n \<noteq> ''NaN'')"
| "truthy (JStr s) = (s \<noteq> [])"
| "truthy (JArr xs) = True"
| "truthy (JObj kvs) = True"

definition js_or :: "js_value \<Rightarrow> js_value \<Rightarrow> js_value" where
  "js_or v w = (if truthy v then v else w)"

text \<open>Decimal digits of a natural number (an array's or a string's \<^verbatim>\<open>length\<close>).\<close>

fun decimal :: "nat \<Rightarrow> string" where
  "decimal n =
     (if n < 10 then [''0123456789'' ! n]
      else decimal (n div 10) @ [''0123456789'' ! (n mod 10)])"

declare decimal.simps [simp del]

fun join_comma :: "string list \<Rightarrow> string" where
  "join_comma [] = []"
| "join_comma [x] = x"
| "join_comma (x # y # zs) = x @ '','' @ join_comma (y # zs)"

text \<open>
  What a template literal \<^verbatim>\<open>`${v}`\<close> prints for a value, or the \<^verbatim>\<open>TypeError\<close> it
  throws. An object without an own key \<^verbatim>\<open>toString\<close> prints through
  \<^verbatim>\<open>Object.prototype.toString\<close>. An object with that key cannot be printed: the
  value under the key is no function, and \<^verbatim>\<open>valueOf\<close> (its own, no function either,
  or the inherited one, which returns the object) gives no primitive. An array prints
  its elements joined by commas, with nothing for \<^verbatim>\<open>null\<close> and \<^verbatim>\<open>undefined\<close>
  elements, and throws when an element does.
\<close>

fun ToString :: "js_value \<Rightarrow> js_error + string"
  and ToStrings :: "js_value list \<Rightarrow> js_error + string list" where
  "ToString JUndefined = Inr ''undefined''"
| "ToString JNull = Inr ''null''"
| "ToString (JBool b) = Inr (if b then ''true'' else ''false'')"
| "ToString (JNum n) = Inr n"
| "ToString (JStr s) = Inr s"
| "ToString (JArr xs) =
     (case ToStrings xs of Inl e \<Rightarrow> Inl e | Inr ts \<Rightarrow> Inr (join_comma ts))"
| "ToString (JObj kvs) =
     (if map_of kvs ''toString'' = None then Inr ''[object Object]'' else Inl TypeError)"
| "ToStrings [] = Inr []"
| "ToStrings (x # xs) =
     (case (if x = JUndefined \<or> x = JNull then Inr [] else ToString x) of
        Inl e \<Rightarrow> Inl e
      | Inr t \<Rightarrow> (case ToStrings xs of Inl e \<Rightarrow> Inl e | Inr ts \<Rightarrow> Inr (t # ts)))"

definition printable :: "js_value \<Rightarrow> bool" where
  "printable v = (case ToString v of Inl e \<Rightarrow> False | Inr t \<Rightarrow> True)"

text \<open>
  A template literal: its literal pieces and interpolated values, printed from left to
  right; the first value that cannot be printed throws.
\<close>

datatype piece = Lit string | Val js_value

fun template :: "piece list \<Rightarrow> js_error + string" where
  "template [] = Inr []"
| "template (Lit t # ps) =
     (case template ps of Inl e \<Rightarrow> Inl e | Inr u \<Rightarrow> Inr (t @ u))"
| "template (Val v # ps) =
     (case ToString v of
        Inl e \<Rightarrow> Inl e
      | Inr t \<Rightarrow> (case template ps of Inl e \<Rightarrow> Inl e | Inr u \<Rightarrow> Inr (t @ u)))"

text \<open>
  Reading a property, \<^verbatim>\<open>v.k\<close>: a \<^verbatim>\<open>TypeError\<close> on \<^verbatim>\<open>null\<close> and
  \<^verbatim>\<open>undefined\<close>, the own property of an object, the \<^verbatim>\<open>length\<close> of an array or a
  string, and \<^verbatim>\<open>undefined\<close> otherwise. (The keys this program reads are
  \<^verbatim>\<open>riskLevel\<close>, \<^verbatim>\<open>isStkCommand\<close>, \<^verbatim>\<open>targetApp\<close>, \<^verbatim>\<open>components\<close>, \<^verbatim>\<open>length\<close>,
  \<^verbatim>\<open>name\<close>, \<^verbatim>\<open>stkType\<close>, \<^verbatim>\<open>params\<close> and the five builder fields; none of them is
  inherited from a prototype of a parsed value.)
\<close>

fun get_prop :: "js_value \<Rightarrow> string \<Rightarrow> js_error + js_value" where
  "get_prop JUndefined k = Inl TypeError"
| "get_prop JNull k = Inl TypeError"
| "get_prop (JObj kvs) k = Inr (case map_of kvs k of Some v \<Rightarrow> v | None \<Rightarrow> JUndefined)"
| "get_prop (JArr xs) k = Inr (if k = ''length'' then JNum (decimal (length xs)) else JUndefined)"
| "get_prop (JStr s) k = Inr (if k = ''length'' then JNum (decimal (length s)) else JUndefined)"
| "get_prop (JBool b) k = Inr JUndefined"
| "get_prop (JNum n) k = Inr JUndefined"

text \<open>Optional chaining, \<^verbatim>\<open>v?.k\<close>: \<^verbatim>\<open>undefined\<close> where \<^verbatim>\<open>v.k\<close> would throw.\<close>

definition get_opt :: "js_value \<Rightarrow> string \<Rightarrow> js_value" where
  "get_opt v k = (case get_prop v k of Inl e \<Rightarrow> JUndefined | Inr w \<Rightarrow> w)"

text \<open>
  The own enumerable properties an object spread \<^verbatim>\<open>{...v}\<close> copies: those of an
  object, the indexed elements of an array and the indexed characters of a string, and
  nothing for any other value.
\<close>

fun indexed :: "nat \<Rightarrow> js_value list \<Rightarrow> (string \<times> js_value) list" where
  "indexed i [] = []"
| "indexed i (x # xs) = (decimal i, x) # indexed (Suc i) xs"

fun own_props :: "js_value \<Rightarrow> (string \<times> js_value) list" where
  "own_props (JObj kvs) = kvs"
| "own_props (JArr xs) = indexed 0 xs"
| "own_props (JStr s) = indexed 0 (map (\<lambda>c. JStr [c]) s)"
| "own_props v = []"

text \<open>
  Writing a property keeps the place of a key the object already has and appends a new
  key; \<^verbatim>\<open>{...a, ...b}\<close> writes the properties of \<^verbatim>\<open>b\<close> over a copy of \<^verbatim>\<open>a\<close>.
\<close>

fun put :: "string \<Rightarrow> js_value \<Rightarrow> (string \<times> js_value) list \<Rightarrow> (string \<times> js_value) list" where
  "put k v [] = [(k, v)]"
| "put k v ((k', v') # kvs) = (if k = k' then (k, v) # kvs else (k', v') # put k v kvs)"

fun spread :: "(string \<times> js_value) list \<Rightarrow> (string \<times> js_value) list \<Rightarrow> (string \<times> js_value) list" where
  "spread a [] = a"
| "spread a ((k, v) # b) = spread (put k v a) b"

text \<open>
  \<^verbatim>\<open>String.prototype.trim\<close> on the white space of the Latin-1 range: tab, line feed,
  vertical tab, form feed, carriage return, space and no-break space.
\<close>

definition is_space :: "char \<Rightarrow> bool" where
  "is_space c = (of_char c \<in> {9, 10, 11, 12, 13, 32, 160 :: nat})"

definition trim :: "string \<Rightarrow> string" where
  "trim s = rev (dropWhile is_space (rev (dropWhile is_space s)))"

section \<open>The inference service and its client (geminiService.ts)\<close>

text \<open>
  The service is a black box. A call to it (\<^verbatim>\<open>ai.models.generateContent\<close>) either
  fails, so that the awaited promise rejects, or answers with a response, of which the
  client reads \<^verbatim>\<open>response.text\<close> only. Four of the six operations hand that text to
  \<^verbatim>\<open>JSON.parse(response.text.trim())\<close>. The parser belongs to the JavaScript
  runtime and not to this repository, so a response is given here by its text together
  with what the parser makes of it:
  \<^item> \<open>NoText\<close>: \<^verbatim>\<open>response.text\<close> is \<^verbatim>\<open>undefined\<close>, and \<^verbatim>\<open>.trim()\<close> throws a
    \<^verbatim>\<open>TypeError\<close>;
  \<^item> \<open>NotJson t\<close>: the text is \<open>t\<close>, and \<^verbatim>\<open>JSON.parse\<close> throws a \<^verbatim>\<open>SyntaxError\<close> on it;
  \<^item> \<open>Json t v\<close>: the text is \<open>t\<close>, and \<^verbatim>\<open>JSON.parse\<close> returns the value \<open>v\<close> for it
    (any JSON value: the parser knows nothing of the shape the caller expects).
\<close>

datatype response = NoText | NotJson string | Json string js_value

datatype reply = Rejected | Answered response

text \<open>\<^verbatim>\<open>response.text\<close>\<close>

fun response_text :: "response \<Rightarrow> js_value" where
  "response_text NoText = JUndefined"
| "response_text (NotJson t) = JStr t"
| "response_text (Json t v) = JStr t"

text \<open>\<^verbatim>\<open>JSON.parse(response.text.trim())\<close>\<close>

fun parse_response :: "response \<Rightarrow> js_error + js_value" where
  "parse_response NoText = Inl TypeError"
| "parse_response (NotJson t) = Inl SyntaxError"
| "parse_response (Json t v) = Inr v"

text \<open>A response fails to parse when \<^verbatim>\<open>JSON.parse(response.text.trim())\<close> throws.\<close>

fun fails_to_parse :: "response \<Rightarrow> bool" where
  "fails_to_parse NoText = True"
| "fails_to_parse (NotJson t) = True"
| "fails_to_parse (Json t v) = False"

text \<open>
  The requests the client issues. The wording of the prompts is not kept: a request is
  the operation and the arguments that go into its prompt. Building a prompt prints its
  arguments, though, and that is modelled where an argument can be a parsed value.
\<close>

datatype request =
    Analyze string
  | Decode string
  | ImportParams string
  | GenerateCommand string js_value js_value
  | SimulateExfiltration string
  | ExplainTopic string

text \<open>
  Each operation of the client is an \<^verbatim>\<open>async\<close> function: it issues its request,
  awaits the reply and returns or throws. The functions below give the outcome of the
  returned promise for a reply: \<open>Inl e\<close> when it rejects, \<open>Inr v\<close> when it resolves.
  The \<^verbatim>\<open>await\<close> stands before the \<^verbatim>\<open>try\<close> block, so a rejected call rejects the
  operation in all six.
\<close>

definition analysis_fallback :: js_value where
  "analysis_fallback = JObj
     [(''isSilent'', JBool False),
      (''explanation'', JStr ''Failed to parse analysis results.''),
      (''riskLevel'', JStr ''Low''),
      (''mitigation'', JStr ''Ensure the PDU string is valid hex format.'')]"

definition analyzePduVulnerability :: "reply \<Rightarrow> js_error + js_value" where
  "analyzePduVulnerability r =
     (case r of
        Rejected \<Rightarrow> Inl ServiceError
      | Answered resp \<Rightarrow>
          (case parse_response resp of
             Inr v \<Rightarrow> Inr v
           | Inl e \<Rightarrow> Inr analysis_fallback))"

definition decode_fallback :: js_value where
  "decode_fallback = JObj [(''components'', JArr [])]"

definition decodePdu :: "reply \<Rightarrow> js_error + js_value" where
  "decodePdu r =
     (case r of
        Rejected \<Rightarrow> Inl ServiceError
      | Answered resp \<Rightarrow>
          (case parse_response resp of
             Inr v \<Rightarrow> Inr v
           | Inl e \<Rightarrow> Inr decode_fallback))"

definition import_fallback :: js_value where
  "import_fallback = JObj
     [(''stkType'', JStr ''SAT_BROWSER''),
      (''params'', JObj
         [(''commandType'', JStr ''DISPLAY TEXT''),
          (''displayText'', JStr ''''),
          (''targetNumber'', JStr ''''),
          (''urlOrData'', JStr ''''),
          (''pinOrPassword'', JStr '''')])]"

definition importStkParamsFromPdu :: "reply \<Rightarrow> js_error + js_value" where
  "importStkParamsFromPdu r =
     (case r of
        Rejected \<Rightarrow> Inl ServiceError
      | Answered resp \<Rightarrow>
          (case parse_response resp of
             Inr v \<Rightarrow> Inr v
           | Inl e \<Rightarrow> Inr import_fallback))"

text \<open>
  \<^verbatim>\<open>getStkCommandInfo\<close>, before its call to the service: the \<^verbatim>\<open>stkType\<close>
  parameter defaults to \<^verbatim>\<open>'SAT_BROWSER'\<close> when the argument is \<^verbatim>\<open>undefined\<close>; the
  summary of the parameters prints each of the five fields, or \<^verbatim>\<open>'N/A'\<close> for a
  falsy one, when \<^verbatim>\<open>params\<close> is given; the prompt prints \<^verbatim>\<open>stkType\<close>. A value that
  cannot be printed throws here, and the operation rejects without a request.
\<close>

definition stkType_or_default :: "js_value \<Rightarrow> js_value" where
  "stkType_or_default v = (if v = JUndefined then JStr ''SAT_BROWSER'' else v)"

definition paramSummary :: "js_value \<Rightarrow> js_error + string" where
  "paramSummary params =
     (if truthy params then
        template
          [Lit ''Parameters provided: - Command Type: '',
           Val (js_or (get_opt params ''commandType'') (JStr ''N/A'')),
           Lit '' - Display Text: '',
           Val (js_or (get_opt params ''displayText'') (JStr ''N/A'')),
           Lit '' - Target Number: '',
           Val (js_or (get_opt params ''targetNumber'') (JStr ''N/A'')),
           Lit '' - URL/Data: '',
           Val (js_or (get_opt params ''urlOrData'') (JStr ''N/A'')),
           Lit '' - PIN/Password: '',
           Val (js_or (get_opt params ''pinOrPassword'') (JStr ''N/A''))]
      else Inr [])"

definition getStkCommandInfo_request :: "string \<Rightarrow> js_value \<Rightarrow> js_value \<Rightarrow> js_error + request" where
  "getStkCommandInfo_request commandName stkType params =
     (case paramSummary params of
        Inl e \<Rightarrow> Inl e
      | Inr summary \<Rightarrow>
          (case ToString (stkType_or_default stkType) of
             Inl e \<Rightarrow> Inl e
           | Inr t \<Rightarrow> Inr (GenerateCommand commandName (stkType_or_default stkType) params)))"

text \<open>
  \<^verbatim>\<open>getStkCommandInfo\<close>, from the reply on. It has no \<^verbatim>\<open>try\<close>: what
  \<^verbatim>\<open>JSON.parse\<close> throws rejects the operation.
\<close>

definition getStkCommandInfo :: "reply \<Rightarrow> js_error + js_value" where
  "getStkCommandInfo r =
     (case r of
        Rejected \<Rightarrow> Inl ServiceError
      | Answered resp \<Rightarrow> parse_response resp)"

text \<open>The two free-text operations return \<^verbatim>\<open>response.text\<close> as it is.\<close>

definition simulateExfiltratedData :: "reply \<Rightarrow> js_error + js_value" where
  "simulateExfiltratedData r =
     (case r of Rejected \<Rightarrow> Inl ServiceError | Answered resp \<Rightarrow> Inr (response_text resp))"

definition getGeneralEducationalInfo :: "reply \<Rightarrow> js_error + js_value" where
  "getGeneralEducationalInfo r =
     (case r of Rejected \<Rightarrow> Inl ServiceError | Answered resp \<Rightarrow> Inr (response_text resp))"

text \<open>
  The shape the caller of \<^verbatim>\<open>analyzePduVulnerability\<close> expects, the interface
  \<^verbatim>\<open>AnalysisResult\<close> of the repository's type declarations: four required fields and
  two optional ones.
\<close>

definition is_string :: "js_value \<Rightarrow> bool" where
  "is_string v = (case v of JStr s \<Rightarrow> True | _ \<Rightarrow> False)"

definition is_boolean :: "js_value \<Rightarrow> bool" where
  "is_boolean v = (case v of JBool b \<Rightarrow> True | _ \<Rightarrow> False)"

definition is_AnalysisResult :: "js_value \<Rightarrow> bool" where
  "is_AnalysisResult v =
     (case v of
        JObj kvs \<Rightarrow>
          is_boolean (get_opt v ''isSilent'') \<and>
          is_string (get_opt v ''explanation'') \<and>
          get_opt v ''riskLevel'' \<in> set (map JStr [''Low'', ''Medium'', ''High'', ''Critical'']) \<and>
          is_string (get_opt v ''mitigation'') \<and>
          (get_opt v ''isStkCommand'' = JUndefined \<or> is_boolean (get_opt v ''isStkCommand'')) \<and>
          (get_opt v ''targetApp'' = JUndefined \<or> is_string (get_opt v ''targetApp''))
      | _ \<Rightarrow> False)"

text \<open>
  The shape the caller of \<^verbatim>\<open>getStkCommandInfo\<close> expects, the interface
  \<^verbatim>\<open>StkCommand\<close>: four required strings and an optional environment.
\<close>

definition is_StkCommand :: "js_value \<Rightarrow> bool" where
  "is_StkCommand v =
     (case v of
        JObj kvs \<Rightarrow>
          is_string (get_opt v ''name'') \<and>
          is_string (get_opt v ''description'') \<and>
          is_string (get_opt v ''payload'') \<and>
          is_string (get_opt v ''impact'') \<and>
          (get_opt v ''stkType'' = JUndefined \<or>
           get_opt v ''stkType'' \<in> set (map JStr [''SAT_BROWSER'', ''PROACTIVE_SIM'', ''WIB'']))
      | _ \<Rightarrow> False)"

section \<open>The session state (App.tsx)\<close>

datatype tab = Analyzer | Stk | Termux

datatype log_type = PDU_ENCODE | VULN_SCAN | STK_GEN | SYS_LOG | TERMUX_CMD | SUCCESS | RECV_DATA

text \<open>
  An entry of the log. Its \<^verbatim>\<open>timestamp\<close> is \<^verbatim>\<open>Date.now()\<close>, the clock of the state
  below. Its \<^verbatim>\<open>id\<close>, a random token that only keys the rendered list, is left out.
\<close>

record HistoryItem =
  timestamp :: nat
  item_type :: log_type
  content :: string

text \<open>
  \<^verbatim>\<open>App\<close> is a function component: every render calls it anew, and the handlers a
  render creates close over the \<^verbatim>\<open>const\<close> bindings of that call. A handler therefore
  reads the state variables as they were at its render, also after an \<^verbatim>\<open>await\<close> and
  inside a timer callback, while what it writes (\<^verbatim>\<open>setX\<close>, the ref) goes to the
  live state. The bindings the handlers read are these five.
\<close>

record render =
  r_pduInput :: string
  r_importPdu :: string
  r_stkType :: js_value
  r_builderParams :: "(string \<times> js_value) list"
  r_isRunning :: bool

text \<open>
  Timers of the browser. A timer id is a positive integer; \<open>TimerId n\<close> stands for the
  id \<open>n + 1\<close>, so that every id is truthy, as \<^verbatim>\<open>if (intervalRef.current)\<close> tests it.
  A repeating timer holds the closure \<^verbatim>\<open>runNext\<close>: the render it was created in and its
  local counter \<^verbatim>\<open>index\<close>. A one-shot timer holds the follow-up callback of
  \<^verbatim>\<open>handleExecuteCommand\<close>, which reads nothing but \<^verbatim>\<open>cmdType\<close>.
\<close>

datatype timer_id = TimerId nat

record interval =
  iv_id :: timer_id
  iv_due :: nat
  iv_period :: nat
  iv_index :: nat
  iv_render :: render

record timeout =
  to_due :: nat
  to_cmdType :: string

text \<open>
  An \<^verbatim>\<open>async\<close> handler that has reached its \<^verbatim>\<open>await\<close>: what is left of it, with the
  arguments and the render it closes over.
\<close>

datatype pending_call =
    AnalysisCall
  | ImportCall
  | ExecuteCall render string bool js_value
  | EducationCall
  | FollowUpCall string

text \<open>
  The state: the twelve state variables of \<^verbatim>\<open>App\<close> and the ref \<^verbatim>\<open>intervalRef\<close>,
  followed by the surroundings of the component: the clock, the armed timers, the
  handlers waiting for the service, the requests issued so far (each with the time of
  its issue) and the number of timer ids handed out.
\<close>

record state =
  activeTab :: tab
  pduInput :: string
  importPdu :: string
  stkType :: js_value
  builderParams :: "(string \<times> js_value) list"
  history :: "HistoryItem list"
  isAnalyzing :: bool
  isRunning :: bool
  currentAnalysis :: js_value
  decodedPdu :: js_value
  stkCommand :: js_value
  educationalContent :: js_value
  intervalRef :: "timer_id option"
  now :: nat
  intervals :: "interval list"
  timeouts :: "timeout list"
  pending :: "pending_call list"
  issued :: "(nat \<times> request) list"
  timer_count :: nat

definition init :: state where
  "init = \<lparr>
     activeTab = Analyzer,
     pduInput = [],
     importPdu = [],
     stkType = JStr ''SAT_BROWSER'',
     builderParams =
       [(''commandType'', JStr ''DISPLAY TEXT''),
        (''displayText'', JStr []),
        (''targetNumber'', JStr []),
        (''urlOrData'', JStr []),
        (''pinOrPassword'', JStr [])],
     history = [],
     isAnalyzing = False,
     isRunning = False,
     currentAnalysis = JNull,
     decodedPdu = JNull,
     stkCommand = JNull,
     educationalContent = JStr [],
     intervalRef = None,
     now = 0,
     intervals = [],
     timeouts = [],
     pending = [],
     issued = [],
     timer_count = 0 \<rparr>"

text \<open>The bindings a render of the state gives to its handlers.\<close>

definition render_of :: "state \<Rightarrow> render" where
  "render_of s = \<lparr>
     r_pduInput = pduInput s,
     r_importPdu = importPdu s,
     r_stkType = stkType s,
     r_builderParams = builderParams s,
     r_isRunning = isRunning s \<rparr>"

definition autoCommands :: "string list" where
  "autoCommands = [''Get Location'', ''Exfiltrate IMEI'', ''Request Subscriber ID'', ''Query Cell ID'']"

definition addLog :: "string \<Rightarrow> log_type \<Rightarrow> state \<Rightarrow> state" where
  "addLog c t s =
     s\<lparr>history := history s @ [\<lparr>timestamp = now s, item_type = t, content = c\<rparr>]\<rparr>"

text \<open>
  Calling an operation of the client issues its request at once (an \<^verbatim>\<open>async\<close> function
  runs up to its first \<^verbatim>\<open>await\<close> when it is called); the caller then waits.
\<close>

definition issue :: "request \<Rightarrow> state \<Rightarrow> state" where
  "issue q s = s\<lparr>issued := issued s @ [(now s, q)]\<rparr>"

definition await :: "pending_call \<Rightarrow> state \<Rightarrow> state" where
  "await k s = s\<lparr>pending := pending s @ [k]\<rparr>"

text \<open>
  The outcome of a handler's run: \<open>Inr s\<close> when it completes in state \<open>s\<close>,
  \<open>Inl (e, s)\<close> when it throws \<open>e\<close> having brought the state to \<open>s\<close>. The two
  combinators are \<^verbatim>\<open>try ... catch\<close> and \<^verbatim>\<open>try ... finally\<close>. Nothing awaits the
  promise of a handler or catches what an event handler throws, so a handler that
  throws leaves the updates it has made and nothing else (\<open>final\<close>, below).
\<close>

type_synonym outcome = "js_error \<times> state + state"

definition try_catch :: "outcome \<Rightarrow> (js_error \<Rightarrow> state \<Rightarrow> outcome) \<Rightarrow> outcome" where
  "try_catch body handler = (case body of Inl (e, s) \<Rightarrow> handler e s | Inr s \<Rightarrow> Inr s)"

definition try_finally :: "outcome \<Rightarrow> (state \<Rightarrow> state) \<Rightarrow> outcome" where
  "try_finally body cleanup =
     (case body of Inl (e, s) \<Rightarrow> Inl (e, cleanup s) | Inr s \<Rightarrow> Inr (cleanup s))"

text \<open>
  \<^verbatim>\<open>Promise.all\<close> of two promises: both values, or a rejection as soon as one of the
  two rejects (which of two rejections it passes on is not observed by the program).
\<close>

definition Promise_all :: "js_error + 'a \<Rightarrow> js_error + 'b \<Rightarrow> js_error + 'a \<times> 'b" where
  "Promise_all a b =
     (case a of
        Inl e \<Rightarrow> Inl e
      | Inr x \<Rightarrow> (case b of Inl e \<Rightarrow> Inl e | Inr y \<Rightarrow> Inr (x, y)))"

subsection \<open>applyExample\<close>

text \<open>
  An entry of the catalogue \<^verbatim>\<open>educationalExamples\<close>; a field an entry does not have
  is \<open>None\<close>. (The long text of the set-up guide is abridged.)
\<close>

record example =
  ex_name :: string
  ex_type :: string
  ex_pdu :: "string option"
  ex_params :: "(string \<times> js_value) list option"
  ex_stk :: "string option"
  ex_content :: "string option"
  ex_description :: string

definition educationalExamples :: "example list" where
  "educationalExamples =
     [\<lparr> ex_name = ''Non-Root Setup Guide'', ex_type = ''termux'',
         ex_pdu = None, ex_params = None, ex_stk = None,
         ex_content = Some ''Termux Setup (Non-Root): ...'',
         ex_description = ''How to configure Termux for SMS research without requiring root access.'' \<rparr>,
      \<lparr> ex_name = ''Silent SMS (Type 0)'', ex_type = ''analyzer'',
         ex_pdu = Some ''079144775810065011000A81100000000040'', ex_params = None, ex_stk = None,
         ex_content = None,
         ex_description = ''A network ping that does not show up on the UI but returns a delivery receipt.'' \<rparr>,
      \<lparr> ex_name = ''Simjacker Location'', ex_type = ''stk'',
         ex_pdu = None,
         ex_params = Some
           [(''commandType'', JStr ''PROVIDE LOCAL INFO''),
            (''displayText'', JStr ''Get Location''),
            (''urlOrData'', JStr ''MCC/MNC/LAC/CellID'')],
         ex_stk = Some ''SAT_BROWSER'',
         ex_content = None,
         ex_description = ''Classic S@T Browser vulnerability used to silently exfiltrate cell location data.'' \<rparr>,
      \<lparr> ex_name = ''WIB IMEI Audit'', ex_type = ''stk'',
         ex_pdu = None,
         ex_params = Some
           [(''commandType'', JStr ''DISPLAY TEXT''),
            (''displayText'', JStr ''Audit Mode''),
            (''urlOrData'', JStr ''IMEI_REQ'')],
         ex_stk = Some ''WIB'',
         ex_content = None,
         ex_description = ''Targets the SmartTrust WIB applet to request hardware identifiers.'' \<rparr>]"

definition maybe_string :: "string option \<Rightarrow> js_value" where
  "maybe_string x = (case x of None \<Rightarrow> JUndefined | Some t \<Rightarrow> JStr t)"

definition applyExample :: "render \<Rightarrow> example \<Rightarrow> state \<Rightarrow> state" where
  "applyExample r ex s =
     (if ex_type ex = ''analyzer'' \<and> truthy (maybe_string (ex_pdu ex)) then
        (let s1 = s\<lparr>activeTab := Analyzer\<rparr>;
             s2 = s1\<lparr>pduInput := the (ex_pdu ex)\<rparr>
         in addLog (''[EXAMPLE] Loaded '' @ ex_name ex @ '' into Analyzer.'') SYS_LOG s2)
      else if ex_type ex = ''stk'' \<and> ex_params ex \<noteq> None then
        (let s1 = s\<lparr>activeTab := Stk\<rparr>;
             s2 = s1\<lparr>stkType := maybe_string (ex_stk ex)\<rparr>;
             s3 = s2\<lparr>builderParams := spread (r_builderParams r) (the (ex_params ex))\<rparr>
         in addLog (''[EXAMPLE] Loaded '' @ ex_name ex @ '' into STK Builder.'') SYS_LOG s3)
      else if ex_type ex = ''termux'' then
        (let s1 = s\<lparr>activeTab := Termux\<rparr>;
             s2 = s1\<lparr>educationalContent := maybe_string (ex_content ex)\<rparr>
         in addLog ''[INFO] Displaying Non-Root configuration guide.'' SYS_LOG s2)
      else s)"

subsection \<open>handleAnalysis\<close>

text \<open>Up to the \<^verbatim>\<open>await\<close>: the guard, the flag, the two clearings, two log lines and the two calls.\<close>

definition handleAnalysis :: "render \<Rightarrow> state \<Rightarrow> state" where
  "handleAnalysis r s =
     (if trim (r_pduInput r) = [] then s
      else
        (let s1 = s\<lparr>isAnalyzing := True\<rparr>;
             s2 = s1\<lparr>decodedPdu := JNull\<rparr>;
             s3 = s2\<lparr>currentAnalysis := JNull\<rparr>;
             s4 = addLog (''pkg install sms-utils && python3 pdu_parse.py --hex ''
                            @ take 10 (r_pduInput r) @ ''...'') TERMUX_CMD s3;
             s5 = addLog ''[ANALYZING] Probing for protocol anomalies...'' VULN_SCAN s4;
             s6 = issue (Analyze (r_pduInput r)) s5;
             s7 = issue (Decode (r_pduInput r)) s6
         in await AnalysisCall s7))"

text \<open>The \<^verbatim>\<open>try\<close> block after the two results have arrived.\<close>

definition handleAnalysis_try :: "js_value \<Rightarrow> js_value \<Rightarrow> state \<Rightarrow> outcome" where
  "handleAnalysis_try vulnResult decodeResult s =
     (let s1 = s\<lparr>currentAnalysis := vulnResult\<rparr>;
          s2 = s1\<lparr>decodedPdu := decodeResult\<rparr>
      in case get_prop vulnResult ''riskLevel'' of
           Inl e \<Rightarrow> Inl (e, s2)
         | Inr risk \<Rightarrow>
         (case template [Lit ''Scan complete. Risk: '', Val risk, Lit ''.''] of
            Inl e \<Rightarrow> Inl (e, s2)
          | Inr line1 \<Rightarrow>
          (let s3 = addLog line1 VULN_SCAN s2
           in case (if truthy (get_opt vulnResult ''isStkCommand'')
                    then (case template
                                 [Lit ''DETECTED: Binary SMS targeting '',
                                  Val (js_or (get_opt vulnResult ''targetApp'') (JStr ''SIM Application'')),
                                  Lit ''.''] of
                            Inl e \<Rightarrow> Inl (e, s3)
                          | Inr line2 \<Rightarrow> Inr (addLog line2 SYS_LOG s3))
                    else Inr s3) of
                Inl x \<Rightarrow> Inl x
              | Inr s4 \<Rightarrow>
              (case get_prop decodeResult ''components'' of
                 Inl e \<Rightarrow> Inl (e, s4)
               | Inr components \<Rightarrow>
               (case get_prop components ''length'' of
                  Inl e \<Rightarrow> Inl (e, s4)
                | Inr n \<Rightarrow>
                (case template [Lit ''[DECODED] Bitstream parsed into '', Val n,
                                Lit '' components.''] of
                   Inl e \<Rightarrow> Inl (e, s4)
                 | Inr line3 \<Rightarrow> Inr (addLog line3 SUCCESS s4)))))))"

text \<open>The handler from its \<^verbatim>\<open>await\<close> on, for the replies to the two calls.\<close>

definition handleAnalysis_settle :: "reply \<Rightarrow> reply \<Rightarrow> state \<Rightarrow> outcome" where
  "handleAnalysis_settle ra rd s =
     try_finally
       (try_catch
          (case Promise_all (analyzePduVulnerability ra) (decodePdu rd) of
             Inl e \<Rightarrow> Inl (e, s)
           | Inr (vulnResult, decodeResult) \<Rightarrow> handleAnalysis_try vulnResult decodeResult s)
          (\<lambda>error s'. Inr (addLog ''ERR: Analysis failed.'' SYS_LOG s')))
       (\<lambda>s'. s'\<lparr>isAnalyzing := False\<rparr>)"

subsection \<open>handleImportPdu\<close>

definition handleImportPdu :: "render \<Rightarrow> state \<Rightarrow> state" where
  "handleImportPdu r s =
     (if trim (r_importPdu r) = [] then s
      else
        (let s1 = s\<lparr>isAnalyzing := True\<rparr>;
             s2 = addLog ''[STK] Importing parameters from existing PDU hex...'' SYS_LOG s1;
             s3 = issue (ImportParams (r_importPdu r)) s2
         in await ImportCall s3))"

definition handleImportPdu_settle :: "reply \<Rightarrow> state \<Rightarrow> outcome" where
  "handleImportPdu_settle rp s =
     try_finally
       (try_catch
          (case importStkParamsFromPdu rp of
             Inl e \<Rightarrow> Inl (e, s)
           | Inr result \<Rightarrow>
               (case get_prop result ''stkType'' of
                  Inl e \<Rightarrow> Inl (e, s)
                | Inr t \<Rightarrow>
                    (let s1 = s\<lparr>stkType := t\<rparr>;
                         s2 = s1\<lparr>builderParams :=
                                 spread (builderParams s1) (own_props (get_opt result ''params''))\<rparr>
                     in Inr (addLog ''[STK] Form pre-filled from PDU data.'' SUCCESS s2))))
          (\<lambda>error s'. Inr (addLog ''[ERR] Failed to parse PDU for builder.'' SYS_LOG s')))
       (\<lambda>s'. (s'\<lparr>isAnalyzing := False\<rparr>)\<lparr>importPdu := []\<rparr>)"

subsection \<open>handleExecuteCommand\<close>

definition setTimeout :: "string \<Rightarrow> nat \<Rightarrow> state \<Rightarrow> state" where
  "setTimeout cmdType delay s =
     s\<lparr>timeouts := timeouts s @ [\<lparr>to_due = now s + delay, to_cmdType = cmdType\<rparr>]\<rparr>"

text \<open>
  The handler from its \<^verbatim>\<open>await\<close> on, for the outcome of \<^verbatim>\<open>getStkCommandInfo\<close>:
  the rest of the \<^verbatim>\<open>try\<close> block, the \<^verbatim>\<open>catch\<close> and the \<^verbatim>\<open>finally\<close>.
  \<^verbatim>\<open>isRunning\<close> in the condition of the follow-up is the binding of the handler's
  render, not the state variable as it is now.
\<close>

definition handleExecuteCommand_after ::
    "render \<Rightarrow> string \<Rightarrow> bool \<Rightarrow> js_value \<Rightarrow> js_error + js_value \<Rightarrow> state \<Rightarrow> outcome" where
  "handleExecuteCommand_after r cmdType isAuto params awaited s =
     try_finally
       (try_catch
          (case awaited of
             Inl e \<Rightarrow> Inl (e, s)
           | Inr info \<Rightarrow>
               (let s1 = s\<lparr>stkCommand := info\<rparr>
                in case get_prop info ''name'' of
                     Inl e \<Rightarrow> Inl (e, s1)
                   | Inr nm \<Rightarrow>
                   (case template [Lit ''STK payload ready: '', Val nm] of
                      Inl e \<Rightarrow> Inl (e, s1)
                    | Inr line \<Rightarrow>
                       (let s2 = addLog line STK_GEN s1
                        in Inr (if r_isRunning r \<or> (\<not> isAuto \<and> \<not> truthy params)
                                then setTimeout cmdType 2500 s2
                                else s2)))))
          (\<lambda>error s'. Inr (addLog (''Command generation failed for '' @ cmdType @ ''.'') SYS_LOG s')))
       (\<lambda>s'. s'\<lparr>isAnalyzing := False\<rparr>)"

text \<open>
  The handler up to its \<^verbatim>\<open>await\<close>. The parameter \<^verbatim>\<open>params\<close> is \<^verbatim>\<open>undefined\<close>
  when the caller gives none; \<^verbatim>\<open>stkType\<close> is the binding of the handler's render.
  The line ``Generating invisible ...'' is printed before the \<^verbatim>\<open>try\<close>: if it throws,
  the handler rejects there, with the flag set and nothing issued. Inside the \<^verbatim>\<open>try\<close>,
  if \<^verbatim>\<open>getStkCommandInfo\<close> throws while building its prompt, nothing is issued and
  the \<^verbatim>\<open>catch\<close> and \<^verbatim>\<open>finally\<close> run at once; otherwise the request goes out and
  the handler waits.
\<close>

definition handleExecuteCommand :: "render \<Rightarrow> string \<Rightarrow> bool \<Rightarrow> js_value \<Rightarrow> state \<Rightarrow> outcome" where
  "handleExecuteCommand r cmdType isAuto params s =
     (let s1 = s\<lparr>isAnalyzing := True\<rparr>;
          s2 = (if \<not> isAuto
                then addLog ''termux-sms-send -b -n [TARGET] \"STK_PAYLOAD_GEN\"'' TERMUX_CMD s1
                else s1)
      in case template
                [Lit ''Generating invisible '', Val (r_stkType r), Lit '' '',
                 Val (js_or (get_opt params ''commandType'') (JStr ''EXECUTE'')),
                 Lit '' COMMAND...''] of
           Inl e \<Rightarrow> Inl (e, s2)
         | Inr line \<Rightarrow>
             (let s3 = addLog line SYS_LOG s2
              in case getStkCommandInfo_request cmdType (r_stkType r) params of
                   Inl e \<Rightarrow> handleExecuteCommand_after r cmdType isAuto params (Inl e) s3
                 | Inr q \<Rightarrow> Inr (await (ExecuteCall r cmdType isAuto params) (issue q s3))))"

text \<open>The waiting handler, for the reply to its request.\<close>

definition handleExecuteCommand_settle ::
    "render \<Rightarrow> string \<Rightarrow> bool \<Rightarrow> js_value \<Rightarrow> reply \<Rightarrow> state \<Rightarrow> outcome" where
  "handleExecuteCommand_settle r cmdType isAuto params rp s =
     handleExecuteCommand_after r cmdType isAuto params (getStkCommandInfo rp) s"

text \<open>
  The follow-up, the callback given to \<^verbatim>\<open>setTimeout\<close>: up to its \<^verbatim>\<open>await\<close>, and from
  there on. It has no \<^verbatim>\<open>try\<close>.
\<close>

definition followUp :: "string \<Rightarrow> state \<Rightarrow> state" where
  "followUp cmdType s =
     (let s1 = addLog ''[INTERCEPT] Incoming silent recovery SMS from target...'' SYS_LOG s;
          s2 = issue (SimulateExfiltration cmdType) s1
      in await (FollowUpCall cmdType) s2)"

definition followUp_settle :: "reply \<Rightarrow> state \<Rightarrow> outcome" where
  "followUp_settle rp s =
     (case simulateExfiltratedData rp of
        Inl e \<Rightarrow> Inl (e, s)
      | Inr mockData \<Rightarrow>
          (case template [Lit ''RECOVERY_DATA: '', Val mockData] of
             Inl e \<Rightarrow> Inl (e, s)
           | Inr line \<Rightarrow>
               (let s1 = addLog line RECV_DATA s
                in Inr (addLog ''[SYSTEM] Information exfiltrated back via silent SMS.'' SUCCESS s1))))"

subsection \<open>handleBuilderSubmit\<close>

text \<open>
  The form's handler prints the five fields into the intent and then calls
  \<^verbatim>\<open>handleExecuteCommand\<close> without awaiting it: it throws only while printing, and
  otherwise returns with whatever the call has done so far.
\<close>

definition final :: "outcome \<Rightarrow> state" where
  "final r = (case r of Inl (e, s) \<Rightarrow> s | Inr s \<Rightarrow> s)"

definition handleBuilderSubmit :: "render \<Rightarrow> state \<Rightarrow> outcome" where
  "handleBuilderSubmit r s =
     (let bp = JObj (r_builderParams r)
      in case template
                [Lit ''Construct a '', Val (get_opt bp ''commandType''),
                 Lit '' command with text \"'', Val (get_opt bp ''displayText''),
                 Lit ''\", target \"'', Val (get_opt bp ''targetNumber''),
                 Lit ''\", data \"'', Val (get_opt bp ''urlOrData''),
                 Lit ''\", and pin \"'', Val (get_opt bp ''pinOrPassword''), Lit ''\"''] of
           Inl e \<Rightarrow> Inl (e, s)
         | Inr intent \<Rightarrow> Inr (final (handleExecuteCommand r intent False bp s)))"

subsection \<open>The scripted run: startSimulation, stopSimulation, toggleSimulation\<close>

definition clearInterval :: "timer_id \<Rightarrow> state \<Rightarrow> state" where
  "clearInterval h s = s\<lparr>intervals := filter (\<lambda>iv. iv_id iv \<noteq> h) (intervals s)\<rparr>"

definition stopSimulation :: "state \<Rightarrow> state" where
  "stopSimulation s =
     (let s1 = s\<lparr>isRunning := False\<rparr>;
          s2 = (case intervalRef s1 of
                  Some h \<Rightarrow> (clearInterval h s1)\<lparr>intervalRef := None\<rparr>
                | None \<Rightarrow> s1)
      in addLog ''[SYSTEM] Simulation halted by operator.'' SYS_LOG s2)"

text \<open>
  \<^verbatim>\<open>runNext\<close>, the closure over the local counter \<^verbatim>\<open>index\<close>: it returns the state and
  the counter as it leaves them. It calls \<^verbatim>\<open>handleExecuteCommand\<close> without awaiting
  it, so it goes on whatever becomes of the call.
\<close>

definition runNext :: "render \<Rightarrow> nat \<Rightarrow> state \<Rightarrow> state \<times> nat" where
  "runNext r index s =
     (if index \<ge> length autoCommands then
        (stopSimulation (addLog ''[SYSTEM] Extensive audit sequence completed.'' SUCCESS s), index)
      else
        (final (handleExecuteCommand r (autoCommands ! index) True JUndefined s), index + 1))"

text \<open>
  \<^verbatim>\<open>window.setInterval(runNext, period)\<close>: a fresh id, and the first run due one period
  from now.
\<close>

definition setInterval :: "render \<Rightarrow> nat \<Rightarrow> nat \<Rightarrow> state \<Rightarrow> timer_id \<times> state" where
  "setInterval r index period s =
     (TimerId (timer_count s),
      s\<lparr>intervals := intervals s @
           [\<lparr>iv_id = TimerId (timer_count s), iv_due = now s + period, iv_period = period,
             iv_index = index, iv_render = r\<rparr>],
        timer_count := Suc (timer_count s)\<rparr>)"

definition startSimulation :: "render \<Rightarrow> state \<Rightarrow> state" where
  "startSimulation r s =
     (let s1 = s\<lparr>isRunning := True\<rparr>;
          s2 = addLog ''sh start_extensive_audit.sh'' TERMUX_CMD s1;
          s3 = addLog ''[SYSTEM] Starting automated vulnerability research sequence (Non-Root)...''
                 SYS_LOG s2;
          (s4, index) = runNext r 0 s3;
          (h, s5) = setInterval r index 8000 s4
      in s5\<lparr>intervalRef := Some h\<rparr>)"

definition toggleSimulation :: "render \<Rightarrow> state \<Rightarrow> state" where
  "toggleSimulation r s = (if r_isRunning r then stopSimulation s else startSimulation r s)"

subsection \<open>fetchEducation\<close>

definition fetchEducation :: "string \<Rightarrow> state \<Rightarrow> state" where
  "fetchEducation topic s =
     (let s1 = s\<lparr>isAnalyzing := True\<rparr>;
          s2 = addLog (''[INFO] Retrieving educational data for: '' @ topic) SYS_LOG s1;
          s3 = issue (ExplainTopic topic) s2
      in await EducationCall s3)"

definition fetchEducation_settle :: "reply \<Rightarrow> state \<Rightarrow> outcome" where
  "fetchEducation_settle rp s =
     try_finally
       (try_catch
          (case getGeneralEducationalInfo rp of
             Inl e \<Rightarrow> Inl (e, s)
           | Inr info \<Rightarrow> Inr (s\<lparr>educationalContent := info\<rparr>))
          (\<lambda>error s'. Inr (addLog ''[ERR] Failed to fetch education module.'' SYS_LOG s')))
       (\<lambda>s'. s'\<lparr>isAnalyzing := False\<rparr>)"

subsection \<open>clearHistory\<close>

definition clearHistory :: "render \<Rightarrow> state \<Rightarrow> state" where
  "clearHistory r s =
     (let s1 = s\<lparr>history := []\<rparr>;
          s2 = s1\<lparr>currentAnalysis := JNull\<rparr>;
          s3 = s2\<lparr>decodedPdu := JNull\<rparr>;
          s4 = s3\<lparr>stkCommand := JNull\<rparr>;
          s5 = s4\<lparr>pduInput := []\<rparr>;
          s6 = s5\<lparr>educationalContent := JStr []\<rparr>
      in if r_isRunning r then stopSimulation s6 else s6)"

section \<open>The session as a transition system\<close>

text \<open>
  What can happen to a session: an action of the operator on the rendered page, the
  settling of a call to the service, the passing of time, and the firing of a timer.
  An action of the operator runs the handler of the latest render, whose bindings are
  the state as it is (React renders again after the updates of a handler and before the
  next event). The rendering itself is not modelled beyond which controls the page shows.
\<close>

datatype event =
    Select_tab tab
  | Type_pduInput string
  | Type_importPdu string
  | Select_stkType string
  | Edit_builder string string
  | Exec
  | Map_import
  | Submit_builder
  | Toggle
  | Reset
  | Topic nat
  | Example nat
  | Close_applet
  | Return_knowledge
  | New_analysis
  | Termux_enter string
  | Settle nat "reply list"
  | Elapse nat
  | Interval_fires timer_id
  | Timeout_fires nat

definition topics :: "string list" where
  "topics =
     [''Simjacker Vulnerability Summary'',
      ''S@T Browser SIM Alliance Protocol'',
      ''STK EXECUTE COMMAND proactive command structure'',
      ''How to protect SIM cards from silent commands'',
      ''How SIM cards exfiltrate device identifiers via SMS'']"

text \<open>
  The controls the page shows in a state, as the JSX of \<^verbatim>\<open>App\<close> renders them: the
  input row of the active tab; in the side panel the applet, else the informational
  text, else the analysis, else the topic buttons; the toggle, the reset, the tab
  buttons and the examples always. The two selects offer their options only.
\<close>

fun rendered :: "event \<Rightarrow> state \<Rightarrow> bool" where
  "rendered (Type_pduInput v) s = (activeTab s = Analyzer)"
| "rendered Exec s = (activeTab s = Analyzer)"
| "rendered (Type_importPdu v) s = (activeTab s = Stk)"
| "rendered Map_import s = (activeTab s = Stk)"
| "rendered (Select_stkType v) s =
     (activeTab s = Stk \<and> v \<in> set [''SAT_BROWSER'', ''PROACTIVE_SIM'', ''WIB''])"
| "rendered (Edit_builder k v) s =
     (activeTab s = Stk \<and>
      (k \<in> set [''displayText'', ''targetNumber'', ''pinOrPassword'', ''urlOrData''] \<or>
       (k = ''commandType'' \<and>
        v \<in> set [''DISPLAY TEXT'', ''SEND SMS'', ''LAUNCH BROWSER'', ''SETUP CALL'',
                  ''PROVIDE LOCAL INFO''])))"
| "rendered Submit_builder s = (activeTab s = Stk)"
| "rendered (Termux_enter v) s = (activeTab s = Termux)"
| "rendered Close_applet s = truthy (stkCommand s)"
| "rendered Return_knowledge s =
     (\<not> truthy (stkCommand s) \<and> truthy (educationalContent s))"
| "rendered New_analysis s =
     (\<not> truthy (stkCommand s) \<and> \<not> truthy (educationalContent s) \<and> truthy (currentAnalysis s))"
| "rendered (Topic i) s =
     (\<not> truthy (stkCommand s) \<and> \<not> truthy (educationalContent s)
      \<and> \<not> truthy (currentAnalysis s) \<and> i < length topics)"
| "rendered (Example i) s = (i < length educationalExamples)"
| "rendered (Select_tab t) s = True"
| "rendered Toggle s = True"
| "rendered Reset s = True"
| "rendered (Settle i rs) s = True"
| "rendered (Elapse d) s = True"
| "rendered (Interval_fires h) s = True"
| "rendered (Timeout_fires i) s = True"

text \<open>
  A waiting handler goes on when its calls have settled: \<^verbatim>\<open>handleAnalysis\<close> waits for
  two replies, every other handler for one.
\<close>

fun resume :: "pending_call \<Rightarrow> reply list \<Rightarrow> state \<Rightarrow> outcome option" where
  "resume AnalysisCall [ra, rd] s = Some (handleAnalysis_settle ra rd s)"
| "resume ImportCall [rp] s = Some (handleImportPdu_settle rp s)"
| "resume (ExecuteCall r cmdType isAuto params) [rp] s =
     Some (handleExecuteCommand_settle r cmdType isAuto params rp s)"
| "resume EducationCall [rp] s = Some (fetchEducation_settle rp s)"
| "resume (FollowUpCall cmdType) [rp] s = Some (followUp_settle rp s)"
| "resume k rs s = None"

definition settle :: "nat \<Rightarrow> reply list \<Rightarrow> state \<Rightarrow> state option" where
  "settle i rs s =
     (if i < length (pending s) then
        map_option final
          (resume (pending s ! i) rs
             (s\<lparr>pending := take i (pending s) @ drop (Suc i) (pending s)\<rparr>))
      else None)"

text \<open>
  A repeating timer fires no earlier than it is due. Its callback runs, and if the timer
  is still armed after that, it is due again one period later.
\<close>

definition fire_interval :: "timer_id \<Rightarrow> state \<Rightarrow> state option" where
  "fire_interval h s =
     (case find (\<lambda>iv. iv_id iv = h) (intervals s) of
        None \<Rightarrow> None
      | Some iv \<Rightarrow>
          if now s < iv_due iv then None
          else
            (let (s1, index) = runNext (iv_render iv) (iv_index iv) s
             in Some (s1\<lparr>intervals :=
                  map (\<lambda>iv'. if iv_id iv' = h
                              then iv'\<lparr>iv_index := index, iv_due := now s + iv_period iv'\<rparr>
                              else iv')
                      (intervals s1)\<rparr>)))"

text \<open>A one-shot timer fires once, no earlier than it is due, and is gone.\<close>

definition fire_timeout :: "nat \<Rightarrow> state \<Rightarrow> state option" where
  "fire_timeout i s =
     (if i < length (timeouts s) \<and> to_due (timeouts s ! i) \<le> now s then
        Some (followUp (to_cmdType (timeouts s ! i))
                (s\<lparr>timeouts := take i (timeouts s) @ drop (Suc i) (timeouts s)\<rparr>))
      else None)"

text \<open>What an event does, given that it can happen.\<close>

fun act :: "event \<Rightarrow> state \<Rightarrow> state option" where
  "act (Select_tab t) s = Some (s\<lparr>activeTab := t\<rparr>)"
| "act (Type_pduInput v) s = Some (s\<lparr>pduInput := v\<rparr>)"
| "act (Type_importPdu v) s = Some (s\<lparr>importPdu := v\<rparr>)"
| "act (Select_stkType v) s = Some (s\<lparr>stkType := JStr v\<rparr>)"
| "act (Edit_builder k v) s =
     Some (s\<lparr>builderParams := spread (r_builderParams (render_of s)) [(k, JStr v)]\<rparr>)"
| "act Exec s = Some (handleAnalysis (render_of s) s)"
| "act Map_import s = Some (handleImportPdu (render_of s) s)"
| "act Submit_builder s = Some (final (handleBuilderSubmit (render_of s) s))"
| "act Toggle s = Some (toggleSimulation (render_of s) s)"
| "act Reset s = Some (clearHistory (render_of s) s)"
| "act (Topic i) s = Some (fetchEducation (topics ! i) s)"
| "act (Example i) s = Some (applyExample (render_of s) (educationalExamples ! i) s)"
| "act Close_applet s = Some (s\<lparr>stkCommand := JNull\<rparr>)"
| "act Return_knowledge s = Some (s\<lparr>educationalContent := JStr []\<rparr>)"
| "act New_analysis s = Some (s\<lparr>currentAnalysis := JNull\<rparr>)"
| "act (Termux_enter v) s = Some (addLog v TERMUX_CMD s)"
| "act (Settle i rs) s = settle i rs s"
| "act (Elapse d) s = Some (s\<lparr>now := now s + d\<rparr>)"
| "act (Interval_fires h) s = fire_interval h s"
| "act (Timeout_fires i) s = fire_timeout i s"

definition step :: "event \<Rightarrow> state \<Rightarrow> state option" where
  "step e s = (if rendered e s then act e s else None)"

fun run :: "event list \<Rightarrow> state \<Rightarrow> state option" where
  "run [] s = Some s"
| "run (e # es) s = (case step e s of None \<Rightarrow> None | Some s' \<Rightarrow> run es s')"

text \<open>
  What holds of the repeating timer in every state a session reaches: while a scripted run
  is active, exactly the timer that \<^verbatim>\<open>intervalRef\<close> names is armed, and otherwise none.
\<close>

definition timer_invariant :: "state \<Rightarrow> bool" where
  "timer_invariant s =
     (if isRunning s
      then (\<exists>iv. intervals s = [iv] \<and> intervalRef s = Some (iv_id iv))
      else intervals s = [] \<and> intervalRef s = None)"

text \<open>
  What holds of the closures in every state a session reaches: the render a repeating
  timer carries, and the render of every waiting \<^verbatim>\<open>handleExecuteCommand\<close> that was
  called by the script (\<^verbatim>\<open>isAuto\<close> true), is one in which \<^verbatim>\<open>isRunning\<close> is false.
\<close>

fun scripted_idle :: "pending_call \<Rightarrow> bool" where
  "scripted_idle (ExecuteCall r cmdType isAuto params) = (isAuto \<longrightarrow> \<not> r_isRunning r)"
| "scripted_idle k = True"

definition closure_invariant :: "state \<Rightarrow> bool" where
  "closure_invariant s =
     ((\<forall>iv \<in> set (intervals s). \<not> r_isRunning (iv_render iv))
      \<and> (\<forall>k \<in> set (pending s). scripted_idle k))"

section \<open>Properties\<close>

lemmas handler_defs =
  addLog_def issue_def await_def try_catch_def try_finally_def Promise_all_def setTimeout_def
  handleExecuteCommand_after_def

lemmas sched_defs =
  render_of_def toggleSimulation_def startSimulation_def runNext_def autoCommands_def
  handleExecuteCommand_def getStkCommandInfo_request_def paramSummary_def
  stkType_or_default_def final_def setInterval_def stopSimulation_def clearInterval_def
  fire_interval_def get_opt_def js_or_def Let_def

lemma printable_default: "printable v \<Longrightarrow> printable (stkType_or_default v)"
  by (simp add: stkType_or_default_def printable_def)

text \<open>Printing throws nothing but a \<^verbatim>\<open>TypeError\<close>.\<close>

lemma ToString_error:
  "ToString v = Inl e \<Longrightarrow> e = TypeError"
  "ToStrings vs = Inl e \<Longrightarrow> e = TypeError"
  by (induction v and vs arbitrary: e and e rule: ToString_ToStrings.induct)
     (auto split: sum.splits if_splits)

lemma template_error: "template ps = Inl e \<Longrightarrow> e = TypeError"
proof (induction ps arbitrary: e)
  case Nil
  then show ?case by simp
next
  case (Cons p ps)
  then show ?case
    by (cases p) (auto split: sum.splits dest: ToString_error(1))
qed

subsection \<open>What handleExecuteCommand leaves alone\<close>

text \<open>
  Up to its \<^verbatim>\<open>await\<close> (or to where it throws), \<^verbatim>\<open>handleExecuteCommand\<close> touches the
  flag and the log, and adds at most itself to the waiting handlers.
\<close>

lemma handleExecuteCommand_frame:
  "isRunning (final (handleExecuteCommand r cmdType isAuto params s)) = isRunning s
   \<and> intervals (final (handleExecuteCommand r cmdType isAuto params s)) = intervals s
   \<and> intervalRef (final (handleExecuteCommand r cmdType isAuto params s)) = intervalRef s
   \<and> timeouts (final (handleExecuteCommand r cmdType isAuto params s)) = timeouts s
   \<and> timer_count (final (handleExecuteCommand r cmdType isAuto params s)) = timer_count s
   \<and> now (final (handleExecuteCommand r cmdType isAuto params s)) = now s"
  by (auto simp: handleExecuteCommand_def final_def handler_defs Let_def split: sum.splits)

lemma handleExecuteCommand_pending:
  "pending (final (handleExecuteCommand r cmdType isAuto params s)) = pending s
   \<or> pending (final (handleExecuteCommand r cmdType isAuto params s))
       = pending s @ [ExecuteCall r cmdType isAuto params]"
  by (auto simp: handleExecuteCommand_def final_def handler_defs Let_def split: sum.splits)

lemma handleBuilderSubmit_final:
  "final (handleBuilderSubmit r s) = s
   \<or> (\<exists>intent. final (handleBuilderSubmit r s)
         = final (handleExecuteCommand r intent False (JObj (r_builderParams r)) s))"
proof (cases "handleBuilderSubmit r s")
  case (Inl a)
  then show ?thesis
    by (auto simp: handleBuilderSubmit_def final_def [of "Inl a"] Let_def
          split: sum.splits simp del: template.simps)
next
  case (Inr b)
  then have "\<exists>intent. b = final (handleExecuteCommand r intent False (JObj (r_builderParams r)) s)"
    by (auto simp: handleBuilderSubmit_def Let_def split: sum.splits simp del: template.simps)
  then show ?thesis
    by (simp add: Inr final_def [of "Inr b"])
qed

lemma handleBuilderSubmit_frame:
  "isRunning (final (handleBuilderSubmit r s)) = isRunning s
   \<and> intervals (final (handleBuilderSubmit r s)) = intervals s
   \<and> intervalRef (final (handleBuilderSubmit r s)) = intervalRef s
   \<and> timeouts (final (handleBuilderSubmit r s)) = timeouts s"
  using handleBuilderSubmit_final [of r s]
proof (elim disjE exE)
  assume "final (handleBuilderSubmit r s) = s"
  then show ?thesis by simp
next
  fix intent
  assume "final (handleBuilderSubmit r s)
          = final (handleExecuteCommand r intent False (JObj (r_builderParams r)) s)"
  then show ?thesis by (simp add: handleExecuteCommand_frame)
qed

lemma handleBuilderSubmit_pending:
  "pending (final (handleBuilderSubmit r s)) = pending s
   \<or> (\<exists>intent. pending (final (handleBuilderSubmit r s))
         = pending s @ [ExecuteCall r intent False (JObj (r_builderParams r))])"
  using handleBuilderSubmit_final [of r s]
proof (elim disjE exE)
  assume "final (handleBuilderSubmit r s) = s"
  then show ?thesis by simp
next
  fix intent
  assume "final (handleBuilderSubmit r s)
          = final (handleExecuteCommand r intent False (JObj (r_builderParams r)) s)"
  then show ?thesis
    using handleExecuteCommand_pending [of r intent False "JObj (r_builderParams r)" s]
    by auto
qed

lemma trim_0791: "trim ''0791'' = ''0791''"
  by (simp add: trim_def is_space_def)

lemma map_of_put: "map_of (put k v a) = (map_of a)(k \<mapsto> v)"
  by (induction a) (auto simp: fun_eq_iff)

subsection \<open>The repeating timer in reachable states\<close>

lemma resume_frame:
  "resume k rs s = Some out \<Longrightarrow>
     isRunning (final out) = isRunning s \<and> intervals (final out) = intervals s
     \<and> intervalRef (final out) = intervalRef s"
  by (induction k rs s rule: resume.induct)
     (auto simp: final_def handleAnalysis_settle_def handleAnalysis_try_def
        handleImportPdu_settle_def handleExecuteCommand_settle_def fetchEducation_settle_def
        followUp_settle_def handler_defs Let_def split: sum.splits prod.splits if_splits)

lemma settle_frame:
  "settle i rs s = Some s' \<Longrightarrow>
     isRunning s' = isRunning s \<and> intervals s' = intervals s \<and> intervalRef s' = intervalRef s"
  using resume_frame [of "pending s ! i" rs "s\<lparr>pending := take i (pending s) @ drop (Suc i) (pending s)\<rparr>"]
  by (auto simp: settle_def split: if_splits)

lemma act_timer_invariant:
  "timer_invariant s \<Longrightarrow> act e s = Some s' \<Longrightarrow> timer_invariant s'"
proof (cases e)
  case (Settle i rs)
  then show "timer_invariant s \<Longrightarrow> act e s = Some s' \<Longrightarrow> timer_invariant s'"
    using settle_frame [of i rs s s'] by (simp add: timer_invariant_def)
next
  case (Interval_fires h)
  then show "timer_invariant s \<Longrightarrow> act e s = Some s' \<Longrightarrow> timer_invariant s'"
    by (auto simp: timer_invariant_def fire_interval_def runNext_def handleExecuteCommand_frame
          stopSimulation_def clearInterval_def addLog_def Let_def
          split: if_splits option.splits)
next
  case (Timeout_fires i)
  then show "timer_invariant s \<Longrightarrow> act e s = Some s' \<Longrightarrow> timer_invariant s'"
    by (auto simp: timer_invariant_def fire_timeout_def followUp_def addLog_def issue_def
          await_def Let_def split: if_splits)
next
  case Toggle
  then show "timer_invariant s \<Longrightarrow> act e s = Some s' \<Longrightarrow> timer_invariant s'"
    by (auto simp: timer_invariant_def render_of_def toggleSimulation_def startSimulation_def
          runNext_def autoCommands_def handleExecuteCommand_frame setInterval_def
          stopSimulation_def clearInterval_def addLog_def Let_def split: if_splits)
next
  case Reset
  then show "timer_invariant s \<Longrightarrow> act e s = Some s' \<Longrightarrow> timer_invariant s'"
    by (auto simp: timer_invariant_def render_of_def clearHistory_def
          stopSimulation_def clearInterval_def addLog_def Let_def split: if_splits)
next
  case Submit_builder
  then show "timer_invariant s \<Longrightarrow> act e s = Some s' \<Longrightarrow> timer_invariant s'"
    by (auto simp: timer_invariant_def handleBuilderSubmit_frame)
qed (auto simp: timer_invariant_def render_of_def handleAnalysis_def handleImportPdu_def
       fetchEducation_def applyExample_def addLog_def issue_def await_def Let_def
       split: if_splits)

lemma run_timer_invariant:
  "timer_invariant s \<Longrightarrow> run es s = Some s' \<Longrightarrow> timer_invariant s'"
proof (induction es arbitrary: s)
  case Nil
  then show ?case by simp
next
  case (Cons e es)
  then show ?case
    by (auto simp: step_def split: option.splits if_splits dest: act_timer_invariant)
qed

text \<open>In a session that is not running a script, no repeating timer is armed.\<close>

lemma idle_session_has_no_timer:
  "run es init = Some s \<Longrightarrow> \<not> isRunning s \<Longrightarrow> intervals s = []"
  using run_timer_invariant [of init es s]
  by (simp add: timer_invariant_def init_def)

text \<open>And a reset leaves none armed, whatever was armed before.\<close>

lemma reset_leaves_no_timer:
  assumes "run es init = Some s" and "step Reset s = Some s'"
  shows "intervals s' = [] \<and> intervalRef s' = None \<and> \<not> isRunning s'"
proof -
  have "timer_invariant s"
    using run_timer_invariant [of init es s] assms(1) by (simp add: timer_invariant_def init_def)
  with assms(2) show ?thesis
    by (auto simp: step_def timer_invariant_def clearHistory_def render_of_def
          stopSimulation_def clearInterval_def addLog_def Let_def split: if_splits)
qed

subsection \<open>The in-flight flag\<close>

text \<open>
  When \<^verbatim>\<open>getStkCommandInfo\<close> gets as far as its request: when the environment can be
  printed and, if parameters are given, each of the five fields (or \<^verbatim>\<open>'N/A'\<close> in
  its place) can.
\<close>

lemma template_Inr_iff:
  "(\<exists>t. template ps = Inr t) = (\<forall>v. Val v \<in> set ps \<longrightarrow> printable v)"
proof (induction ps)
  case Nil
  then show ?case by simp
next
  case (Cons p ps)
  then show ?case
    by (cases p) (auto simp: printable_def split: sum.splits)
qed

lemma getStkCommandInfo_request_cases:
  "getStkCommandInfo_request commandName t params =
     (if printable (stkType_or_default t)
         \<and> (truthy params \<longrightarrow>
              (\<forall>k \<in> set [''commandType'', ''displayText'', ''targetNumber'', ''urlOrData'',
                           ''pinOrPassword''].
                 printable (js_or (get_opt params k) (JStr ''N/A''))))
      then Inr (GenerateCommand commandName (stkType_or_default t) params)
      else Inl TypeError)"
proof -
  have err: "\<And>x e. ToString x = Inl e \<Longrightarrow> e = TypeError"
    by (rule ToString_error(1))
  show ?thesis
    by (auto simp: getStkCommandInfo_request_def paramSummary_def printable_def
          split: sum.splits dest: err)
qed

text \<open>
  Claim C1 says that while the in-flight flag (\<^verbatim>\<open>isAnalyzing\<close>) is true, a second call
  to a gated operation is rejected, so that no second request is issued before the first
  settles. None of the four handlers reads the flag, and no control of the page is
  hidden or disabled by it; it only shows the line ``Processing request...''.

  C1, as amended: the in-flight flag gates nothing. In a state whose flag is true the
  page shows the same controls as with the flag false; fetch-topic issues its request;
  submit-for-analysis and import-params issue theirs unless their input is blank; and
  execute-command issues its request unless printing throws first (its log line prints
  the environment and the command type, its prompt the environment and the given
  parameters), in which case it issues nothing.
\<close>

theorem C1_flag_does_not_gate:
  "rendered e (s\<lparr>isAnalyzing := True\<rparr>) = rendered e (s\<lparr>isAnalyzing := False\<rparr>)
   \<and> issued (final (handleExecuteCommand r cmdType isAuto params (s\<lparr>isAnalyzing := True\<rparr>)))
     = (if printable (r_stkType r)
           \<and> printable (js_or (get_opt params ''commandType'') (JStr ''EXECUTE''))
        then (case getStkCommandInfo_request cmdType (r_stkType r) params of
                Inl err \<Rightarrow> issued s
              | Inr q \<Rightarrow> issued s @ [(now s, q)])
        else issued s)
   \<and> issued (fetchEducation topic (s\<lparr>isAnalyzing := True\<rparr>))
     = issued s @ [(now s, ExplainTopic topic)]
   \<and> issued (handleAnalysis r (s\<lparr>isAnalyzing := True\<rparr>))
     = (if trim (r_pduInput r) = [] then issued s
        else issued s @ [(now s, Analyze (r_pduInput r)), (now s, Decode (r_pduInput r))])
   \<and> issued (handleImportPdu r (s\<lparr>isAnalyzing := True\<rparr>))
     = (if trim (r_importPdu r) = [] then issued s
        else issued s @ [(now s, ImportParams (r_importPdu r))])"
proof (intro conjI)
  show "rendered e (s\<lparr>isAnalyzing := True\<rparr>) = rendered e (s\<lparr>isAnalyzing := False\<rparr>)"
    by (cases e) simp_all
  show "issued (final (handleExecuteCommand r cmdType isAuto params (s\<lparr>isAnalyzing := True\<rparr>)))
     = (if printable (r_stkType r)
           \<and> printable (js_or (get_opt params ''commandType'') (JStr ''EXECUTE''))
        then (case getStkCommandInfo_request cmdType (r_stkType r) params of
                Inl err \<Rightarrow> issued s
              | Inr q \<Rightarrow> issued s @ [(now s, q)])
        else issued s)"
    by (auto simp: handleExecuteCommand_def final_def printable_def handler_defs Let_def
          split: sum.splits)
qed (simp_all add: fetchEducation_def handleAnalysis_def handleImportPdu_def handler_defs
       Let_def)

text \<open>
  The claim as stated fails: the operator types a PDU and submits it; with the flag true
  and the two calls of that submission unsettled, a topic is fetched and the PDU is
  submitted again, and three more requests go out.
\<close>

theorem C1_second_request_counterexample:
  "(case run [Type_pduInput ''0791'', Exec] init of
      None \<Rightarrow> False
    | Some s1 \<Rightarrow>
        isAnalyzing s1 \<and> pending s1 = [AnalysisCall]
        \<and> issued s1 = [(0, Analyze ''0791''), (0, Decode ''0791'')]
        \<and> (case run [Topic 0, Exec] s1 of
              None \<Rightarrow> False
            | Some s2 \<Rightarrow>
                pending s2 = [AnalysisCall, EducationCall, AnalysisCall]
                \<and> issued s2 =
                    [(0, Analyze ''0791''), (0, Decode ''0791''),
                     (0, ExplainTopic ''Simjacker Vulnerability Summary''),
                     (0, Analyze ''0791''), (0, Decode ''0791'')]))"
  by (simp add: step_def init_def render_of_def topics_def handleAnalysis_def
        fetchEducation_def handler_defs trim_0791 Let_def)

subsection \<open>Reset\<close>

text \<open>
  Claim C2 says that \<^verbatim>\<open>reset-session()\<close> (the handler \<^verbatim>\<open>clearHistory\<close>) always yields
  an empty log and clears all input buffers. It clears the analyzer's input and leaves
  the import input as it is; and when a scripted run is active it stops the run after
  emptying the log, and stopping appends a line.

  C2, as amended: for every session state, reset-session yields in one transition (one
  handler call, whose updates React applies together): no current AnalysisResult,
  DecodedPdu or StkCommand, the analyzer's input buffer and the informational content
  cleared, and running false, with the repeating timer that \<^verbatim>\<open>intervalRef\<close> names
  cancelled and the ref cleared if a scripted run was active; the log is empty if no
  scripted run was active.
\<close>

theorem C2_reset:
  "\<exists>s'. step Reset s = Some s'
     \<and> currentAnalysis s' = JNull \<and> decodedPdu s' = JNull \<and> stkCommand s' = JNull
     \<and> pduInput s' = [] \<and> educationalContent s' = JStr []
     \<and> \<not> isRunning s'
     \<and> (isRunning s \<longrightarrow>
          intervalRef s' = None
          \<and> (\<forall>iv \<in> set (intervals s'). Some (iv_id iv) \<noteq> intervalRef s))
     \<and> (\<not> isRunning s \<longrightarrow> history s' = [])"
  by (cases "intervalRef s")
     (auto simp: step_def clearHistory_def render_of_def stopSimulation_def clearInterval_def
        addLog_def Let_def)

theorem C2_reset_witness:
  "(case run [Type_pduInput ''0791'', Toggle] init of
      None \<Rightarrow> False
    | Some s \<Rightarrow>
        isRunning s \<and> intervalRef s = Some (TimerId 0) \<and> map iv_id (intervals s) = [TimerId 0]
        \<and> pduInput s = ''0791''
        \<and> (case step Reset s of
              None \<Rightarrow> False
            | Some s' \<Rightarrow>
                \<not> isRunning s' \<and> intervalRef s' = None \<and> intervals s' = []
                \<and> pduInput s' = [] \<and> currentAnalysis s' = JNull \<and> decodedPdu s' = JNull
                \<and> stkCommand s' = JNull \<and> educationalContent s' = JStr []))
   \<and> (case run [Select_tab Termux, Termux_enter ''ls''] init of
        None \<Rightarrow> False
      | Some s \<Rightarrow>
          \<not> isRunning s \<and> map content (history s) = [''ls'']
          \<and> (case step Reset s of None \<Rightarrow> False | Some s' \<Rightarrow> history s' = []))"
  using C2_reset [of "the (run [Type_pduInput ''0791'', Toggle] init)"]
        C2_reset [of "the (run [Select_tab Termux, Termux_enter ''ls''] init)"]
  by (simp add: step_def init_def sched_defs clearHistory_def handler_defs)

text \<open>
  The claim as stated fails: the operator types into the import input of the builder
  tab, starts the scripted run and resets. The log then holds a line, and the import
  input still holds what was typed.
\<close>

theorem C2_reset_counterexample:
  "(case run [Select_tab Stk, Type_importPdu ''0791'', Toggle, Reset] init of
      None \<Rightarrow> False
    | Some s \<Rightarrow>
        map content (history s) = [''[SYSTEM] Simulation halted by operator.'']
        \<and> history s \<noteq> []
        \<and> importPdu s = ''0791'' \<and> importPdu s \<noteq> [])"
  by (simp add: step_def init_def sched_defs clearHistory_def handler_defs)

text \<open>
  What a reset leaves as it was: the import input, the builder form, the active tab, the
  in-flight flag, the handlers waiting for the service and the scheduled follow-ups. And
  what it leaves in the log when it stops a run: the halt notice.
\<close>

lemma reset_frame:
  "step Reset s = Some s' \<Longrightarrow>
     importPdu s' = importPdu s \<and> builderParams s' = builderParams s \<and> stkType s' = stkType s
     \<and> activeTab s' = activeTab s \<and> isAnalyzing s' = isAnalyzing s
     \<and> pending s' = pending s \<and> timeouts s' = timeouts s \<and> issued s' = issued s"
  by (cases "intervalRef s")
     (auto simp: step_def clearHistory_def render_of_def stopSimulation_def clearInterval_def
        addLog_def Let_def split: if_splits)

lemma reset_during_run_logs_halt:
  "isRunning s \<Longrightarrow> step Reset s = Some s' \<Longrightarrow>
     history s' = [\<lparr>timestamp = now s, item_type = SYS_LOG,
                    content = ''[SYSTEM] Simulation halted by operator.''\<rparr>]"
  by (cases "intervalRef s")
     (auto simp: step_def clearHistory_def render_of_def stopSimulation_def clearInterval_def
        addLog_def Let_def)

subsection \<open>The client's fallbacks\<close>

text \<open>
  Claim C3 says that \<^verbatim>\<open>analyzePduVulnerability\<close> returns the fixed fallback for every
  response that cannot be parsed into the expected \<^verbatim>\<open>AnalysisResult\<close> shape. The
  function checks no shape: it returns whatever \<^verbatim>\<open>JSON.parse\<close> returns, and falls back
  only when the parser (or \<^verbatim>\<open>.trim()\<close> on a missing text) throws.

  C3, as amended: for every response that fails to parse (\<^verbatim>\<open>JSON.parse(response.text.trim())\<close>
  throws), the operation returns exactly the fixed fallback; a response that parses is
  returned as parsed, whatever its shape; and the operation raises for no response.
\<close>

theorem C3_analyze_fallback:
  "(fails_to_parse resp \<longrightarrow>
      analyzePduVulnerability (Answered resp) = Inr (JObj
        [(''isSilent'', JBool False),
         (''explanation'', JStr ''Failed to parse analysis results.''),
         (''riskLevel'', JStr ''Low''),
         (''mitigation'', JStr ''Ensure the PDU string is valid hex format.'')]))
   \<and> analyzePduVulnerability (Answered (Json t v)) = Inr v
   \<and> (\<exists>w. analyzePduVulnerability (Answered resp) = Inr w)"
  by (cases resp) (simp_all add: analyzePduVulnerability_def analysis_fallback_def)

theorem C3_analyze_fallback_witness:
  "fails_to_parse (NotJson ''Sorry, I cannot help with that.'')
   \<and> analyzePduVulnerability (Answered (NotJson ''Sorry, I cannot help with that.'')) = Inr (JObj
        [(''isSilent'', JBool False),
         (''explanation'', JStr ''Failed to parse analysis results.''),
         (''riskLevel'', JStr ''Low''),
         (''mitigation'', JStr ''Ensure the PDU string is valid hex format.'')])"
  using C3_analyze_fallback [of "NotJson ''Sorry, I cannot help with that.''"] by simp

text \<open>
  The claim as stated fails on the response whose text is \<^verbatim>\<open>{}\<close>: it parses, to an
  object with none of the required fields, and that object is what the operation returns.
\<close>

theorem C3_wrong_shape_counterexample:
  "\<not> is_AnalysisResult (JObj [])
   \<and> \<not> fails_to_parse (Json ''{}'' (JObj []))
   \<and> analyzePduVulnerability (Answered (Json ''{}'' (JObj []))) = Inr (JObj [])
   \<and> analyzePduVulnerability (Answered (Json ''{}'' (JObj []))) \<noteq> Inr (JObj
        [(''isSilent'', JBool False),
         (''explanation'', JStr ''Failed to parse analysis results.''),
         (''riskLevel'', JStr ''Low''),
         (''mitigation'', JStr ''Ensure the PDU string is valid hex format.'')])"
  by (simp add: analyzePduVulnerability_def is_AnalysisResult_def get_opt_def is_boolean_def)

text \<open>
  C4: for every response to \<^verbatim>\<open>decodePdu\<close> that fails to parse, the operation returns
  exactly \<^verbatim>\<open>{components: []}\<close>; it does not raise and does not return \<^verbatim>\<open>null\<close>.
\<close>

theorem C4_decode_fallback:
  "fails_to_parse resp \<Longrightarrow>
     decodePdu (Answered resp) = Inr (JObj [(''components'', JArr [])])"
  by (cases resp) (simp_all add: decodePdu_def decode_fallback_def)

theorem C4_decode_fallback_witness:
  "fails_to_parse (NotJson ''<html>502 Bad Gateway</html>'')
   \<and> decodePdu (Answered (NotJson ''<html>502 Bad Gateway</html>''))
       = Inr (JObj [(''components'', JArr [])])"
  using C4_decode_fallback [of "NotJson ''<html>502 Bad Gateway</html>''"] by simp

text \<open>
  Claim C5 says that \<^verbatim>\<open>importStkParamsFromPdu\<close> falls back to \<^verbatim>\<open>SAT_BROWSER\<close> with
  every field of the parameters empty. The fallback's \<^verbatim>\<open>commandType\<close> is
  \<^verbatim>\<open>'DISPLAY TEXT'\<close>, the value the builder form starts with.

  C5, as amended: for every response that fails to parse, the operation returns
  \<^verbatim>\<open>stkType\<close> \<^verbatim>\<open>SAT_BROWSER\<close> together with the parameters \<^verbatim>\<open>commandType\<close>
  \<^verbatim>\<open>'DISPLAY TEXT'\<close> and \<^verbatim>\<open>displayText\<close>, \<^verbatim>\<open>targetNumber\<close>, \<^verbatim>\<open>urlOrData\<close> and
  \<^verbatim>\<open>pinOrPassword\<close> empty.
\<close>

theorem C5_import_fallback:
  "fails_to_parse resp \<Longrightarrow>
     importStkParamsFromPdu (Answered resp) = Inr (JObj
       [(''stkType'', JStr ''SAT_BROWSER''),
        (''params'', JObj
           [(''commandType'', JStr ''DISPLAY TEXT''),
            (''displayText'', JStr []),
            (''targetNumber'', JStr []),
            (''urlOrData'', JStr []),
            (''pinOrPassword'', JStr [])])])"
  by (cases resp) (simp_all add: importStkParamsFromPdu_def import_fallback_def)

theorem C5_import_fallback_witness:
  "fails_to_parse NoText
   \<and> importStkParamsFromPdu (Answered NoText) = Inr (JObj
       [(''stkType'', JStr ''SAT_BROWSER''),
        (''params'', JObj
           [(''commandType'', JStr ''DISPLAY TEXT''),
            (''displayText'', JStr []),
            (''targetNumber'', JStr []),
            (''urlOrData'', JStr []),
            (''pinOrPassword'', JStr [])])])"
  using C5_import_fallback [of NoText] by simp

text \<open>The claim as stated fails on any text that is not JSON: one field is not empty.\<close>

theorem C5_command_type_counterexample:
  "fails_to_parse (NotJson ''not json'')
   \<and> (case importStkParamsFromPdu (Answered (NotJson ''not json'')) of
        Inl e \<Rightarrow> False
      | Inr result \<Rightarrow>
          get_opt result ''stkType'' = JStr ''SAT_BROWSER''
          \<and> get_opt (get_opt result ''params'') ''commandType'' = JStr ''DISPLAY TEXT''
          \<and> get_opt (get_opt result ''params'') ''commandType'' \<noteq> JStr [])"
  by (simp add: importStkParamsFromPdu_def import_fallback_def get_opt_def)

subsection \<open>A failed command generation\<close>

text \<open>
  Claim C6 says that a malformed response to \<^verbatim>\<open>getStkCommandInfo\<close> propagates as an
  error out of the client. Only a response that fails to parse does: the operation
  checks no shape and returns whatever \<^verbatim>\<open>JSON.parse\<close> returns.

  C6, as amended: a response to \<^verbatim>\<open>getStkCommandInfo\<close> that fails to parse rejects the
  operation (no value is made up in its place), and a response that parses is returned
  as parsed, whatever its shape. \<^verbatim>\<open>handleExecuteCommand\<close>, for every reply to its
  request, runs to its end without throwing, having appended one line to the log, and
  leaves the in-flight flag false; and whenever the operation rejects (a failed call or
  a response that fails to parse), all it does to the state is append the one line
  ``Command generation failed for ...'' and clear the flag.
\<close>

theorem C6_generate_failure:
  "(fails_to_parse resp \<longrightarrow> (\<exists>e. getStkCommandInfo (Answered resp) = Inl e))
   \<and> getStkCommandInfo (Answered (Json t v)) = Inr v
   \<and> (\<exists>s'. handleExecuteCommand_settle r cmdType isAuto params rp s = Inr s'
          \<and> \<not> isAnalyzing s' \<and> length (history s') = Suc (length (history s)))
   \<and> ((\<exists>e. getStkCommandInfo rp = Inl e) \<longrightarrow>
        handleExecuteCommand_settle r cmdType isAuto params rp s =
          Inr (s\<lparr>history := history s @
                   [\<lparr>timestamp = now s, item_type = SYS_LOG,
                     content = ''Command generation failed for '' @ cmdType @ ''.''\<rparr>],
                 isAnalyzing := False\<rparr>))"
proof (intro conjI)
  show "fails_to_parse resp \<longrightarrow> (\<exists>e. getStkCommandInfo (Answered resp) = Inl e)"
    by (cases resp) (simp_all add: getStkCommandInfo_def)
  show "getStkCommandInfo (Answered (Json t v)) = Inr v"
    by (simp add: getStkCommandInfo_def)
  show "\<exists>s'. handleExecuteCommand_settle r cmdType isAuto params rp s = Inr s'
          \<and> \<not> isAnalyzing s' \<and> length (history s') = Suc (length (history s))"
    by (auto simp: handleExecuteCommand_settle_def handler_defs Let_def
          split: sum.splits prod.splits)
  show "(\<exists>e. getStkCommandInfo rp = Inl e) \<longrightarrow>
        handleExecuteCommand_settle r cmdType isAuto params rp s =
          Inr (s\<lparr>history := history s @
                   [\<lparr>timestamp = now s, item_type = SYS_LOG,
                     content = ''Command generation failed for '' @ cmdType @ ''.''\<rparr>],
                 isAnalyzing := False\<rparr>)"
    by (auto simp: handleExecuteCommand_settle_def handler_defs)
qed

text \<open>
  The claim as stated fails on the response whose text is \<^verbatim>\<open>{}\<close>: it is not a
  \<^verbatim>\<open>StkCommand\<close>, and the operation returns it without an error; the handler stores
  it and logs a payload as ready, not a failure.
\<close>

theorem C6_wrong_shape_counterexample:
  "\<not> is_StkCommand (JObj [])
   \<and> getStkCommandInfo (Answered (Json ''{}'' (JObj []))) = Inr (JObj [])
   \<and> (case run [Toggle, Settle 0 [Answered (Json ''{}'' (JObj []))]] init of
        None \<Rightarrow> False
      | Some s \<Rightarrow>
          stkCommand s = JObj []
          \<and> map content (history s) =
              [''sh start_extensive_audit.sh'',
               ''[SYSTEM] Starting automated vulnerability research sequence (Non-Root)...'',
               ''Generating invisible SAT_BROWSER EXECUTE COMMAND...'',
               ''STK payload ready: undefined''])"
  by (simp add: is_StkCommand_def is_string_def step_def getStkCommandInfo_def init_def
        sched_defs settle_def handleExecuteCommand_settle_def handler_defs)

theorem C6_generate_failure_witness:
  "fails_to_parse (NotJson ''I can not produce that.'')
   \<and> getStkCommandInfo (Answered (NotJson ''I can not produce that.'')) = Inl SyntaxError
   \<and> (case run [Toggle, Settle 0 [Answered (NotJson ''I can not produce that.'')]] init of
        None \<Rightarrow> False
      | Some s \<Rightarrow>
          \<not> isAnalyzing s \<and> pending s = [] \<and> stkCommand s = JNull
          \<and> map content (history s) =
              [''sh start_extensive_audit.sh'',
               ''[SYSTEM] Starting automated vulnerability research sequence (Non-Root)...'',
               ''Generating invisible SAT_BROWSER EXECUTE COMMAND...'',
               ''Command generation failed for Get Location.''])"
  using C6_generate_failure [of "NotJson ''I can not produce that.''" "''{}''" "JObj []"
      "render_of init" "''Get Location''" True JUndefined
      "Answered (NotJson ''I can not produce that.'')"
      "(toggleSimulation (render_of init) init)\<lparr>pending := []\<rparr>"]
  by (simp add: step_def getStkCommandInfo_def init_def sched_defs settle_def final_def
        handleExecuteCommand_settle_def handler_defs)

subsection \<open>The scripted run\<close>

text \<open>
  C7: starting the scheduler in a session that is not running (and so has no repeating
  timer armed), and whose environment can be printed into the log line of a step, sets
  running, logs the start notice, executes step 0 of the four commands at once, with no
  time passing, and arms a repeating timer of period 8000. Each later
  firing of the timer triggers the next command in list order; the firing after the
  fourth command logs completion and stops (running false, timer cancelled) without
  executing a step. A firing is refused before 8000 time units have passed since the
  step before it.
\<close>

theorem C7_scripted_run:
  assumes "\<not> isRunning s" and "intervals s = []" and "ToString (stkType s) = Inr env"
      and "8000 \<le> d1" and "8000 \<le> d2" and "8000 \<le> d3" and "8000 \<le> d4"
  shows "(\<exists>s1. step Toggle s = Some s1
            \<and> isRunning s1 \<and> now s1 = now s
            \<and> map content (drop (length (history s)) (history s1)) =
                [''sh start_extensive_audit.sh'',
                 ''[SYSTEM] Starting automated vulnerability research sequence (Non-Root)...'',
                 ''Generating invisible '' @ env @ '' EXECUTE COMMAND...'']
            \<and> issued s1 = issued s @
                [(now s, GenerateCommand ''Get Location'' (stkType_or_default (stkType s)) JUndefined)]
            \<and> intervalRef s1 = Some (TimerId (timer_count s))
            \<and> map (\<lambda>iv. (iv_id iv, iv_due iv, iv_period iv)) (intervals s1) =
                [(TimerId (timer_count s), now s + 8000, 8000)])
       \<and> (\<exists>s'. run [Toggle,
                  Elapse d1, Interval_fires (TimerId (timer_count s)),
                  Elapse d2, Interval_fires (TimerId (timer_count s)),
                  Elapse d3, Interval_fires (TimerId (timer_count s)),
                  Elapse d4, Interval_fires (TimerId (timer_count s))] s = Some s'
           \<and> issued s' = issued s @
                [(now s, GenerateCommand ''Get Location'' (stkType_or_default (stkType s)) JUndefined),
                 (now s + d1, GenerateCommand ''Exfiltrate IMEI'' (stkType_or_default (stkType s)) JUndefined),
                 (now s + d1 + d2, GenerateCommand ''Request Subscriber ID'' (stkType_or_default (stkType s)) JUndefined),
                 (now s + d1 + d2 + d3, GenerateCommand ''Query Cell ID'' (stkType_or_default (stkType s)) JUndefined)]
           \<and> map content (drop (length (history s) + 6) (history s')) =
                [''[SYSTEM] Extensive audit sequence completed.'',
                 ''[SYSTEM] Simulation halted by operator.'']
           \<and> \<not> isRunning s' \<and> intervals s' = [] \<and> intervalRef s' = None)
       \<and> (\<forall>d<8000.
             run [Toggle,
                  Elapse d, Interval_fires (TimerId (timer_count s))] s = None
           \<and> run [Toggle,
                  Elapse d1, Interval_fires (TimerId (timer_count s)),
                  Elapse d, Interval_fires (TimerId (timer_count s))] s = None
           \<and> run [Toggle,
                  Elapse d1, Interval_fires (TimerId (timer_count s)),
                  Elapse d2, Interval_fires (TimerId (timer_count s)),
                  Elapse d, Interval_fires (TimerId (timer_count s))] s = None
           \<and> run [Toggle,
                  Elapse d1, Interval_fires (TimerId (timer_count s)),
                  Elapse d2, Interval_fires (TimerId (timer_count s)),
                  Elapse d3, Interval_fires (TimerId (timer_count s)),
                  Elapse d, Interval_fires (TimerId (timer_count s))] s = None)"
proof (intro conjI)
  show "\<exists>s1. step Toggle s = Some s1
            \<and> isRunning s1 \<and> now s1 = now s
            \<and> map content (drop (length (history s)) (history s1)) =
                [''sh start_extensive_audit.sh'',
                 ''[SYSTEM] Starting automated vulnerability research sequence (Non-Root)...'',
                 ''Generating invisible '' @ env @ '' EXECUTE COMMAND...'']
            \<and> issued s1 = issued s @
                [(now s, GenerateCommand ''Get Location'' (stkType_or_default (stkType s)) JUndefined)]
            \<and> intervalRef s1 = Some (TimerId (timer_count s))
            \<and> map (\<lambda>iv. (iv_id iv, iv_due iv, iv_period iv)) (intervals s1) =
                [(TimerId (timer_count s), now s + 8000, 8000)]"
    using assms by (simp add: step_def sched_defs handler_defs)
  show "\<exists>s'. run [Toggle,
                  Elapse d1, Interval_fires (TimerId (timer_count s)),
                  Elapse d2, Interval_fires (TimerId (timer_count s)),
                  Elapse d3, Interval_fires (TimerId (timer_count s)),
                  Elapse d4, Interval_fires (TimerId (timer_count s))] s = Some s'
           \<and> issued s' = issued s @
                [(now s, GenerateCommand ''Get Location'' (stkType_or_default (stkType s)) JUndefined),
                 (now s + d1, GenerateCommand ''Exfiltrate IMEI'' (stkType_or_default (stkType s)) JUndefined),
                 (now s + d1 + d2, GenerateCommand ''Request Subscriber ID'' (stkType_or_default (stkType s)) JUndefined),
                 (now s + d1 + d2 + d3, GenerateCommand ''Query Cell ID'' (stkType_or_default (stkType s)) JUndefined)]
           \<and> map content (drop (length (history s) + 6) (history s')) =
                [''[SYSTEM] Extensive audit sequence completed.'',
                 ''[SYSTEM] Simulation halted by operator.'']
           \<and> \<not> isRunning s' \<and> intervals s' = [] \<and> intervalRef s' = None"
    using assms by (simp add: step_def sched_defs handler_defs)
  show "\<forall>d<8000.
             run [Toggle,
                  Elapse d, Interval_fires (TimerId (timer_count s))] s = None
           \<and> run [Toggle,
                  Elapse d1, Interval_fires (TimerId (timer_count s)),
                  Elapse d, Interval_fires (TimerId (timer_count s))] s = None
           \<and> run [Toggle,
                  Elapse d1, Interval_fires (TimerId (timer_count s)),
                  Elapse d2, Interval_fires (TimerId (timer_count s)),
                  Elapse d, Interval_fires (TimerId (timer_count s))] s = None
           \<and> run [Toggle,
                  Elapse d1, Interval_fires (TimerId (timer_count s)),
                  Elapse d2, Interval_fires (TimerId (timer_count s)),
                  Elapse d3, Interval_fires (TimerId (timer_count s)),
                  Elapse d, Interval_fires (TimerId (timer_count s))] s = None"
    using assms by (simp add: step_def sched_defs handler_defs)
qed

theorem C7_scripted_run_witness:
  "\<not> isRunning init \<and> intervals init = []
   \<and> ToString (stkType init) = Inr ''SAT_BROWSER''
   \<and> (case run [Toggle, Elapse 8000, Interval_fires (TimerId 0),
                 Elapse 8000, Interval_fires (TimerId 0),
                 Elapse 8250, Interval_fires (TimerId 0),
                 Elapse 8000, Interval_fires (TimerId 0)] init of
        None \<Rightarrow> False
      | Some s' \<Rightarrow>
          issued s' =
            [(0, GenerateCommand ''Get Location'' (JStr ''SAT_BROWSER'') JUndefined),
             (8000, GenerateCommand ''Exfiltrate IMEI'' (JStr ''SAT_BROWSER'') JUndefined),
             (16000, GenerateCommand ''Request Subscriber ID'' (JStr ''SAT_BROWSER'') JUndefined),
             (24250, GenerateCommand ''Query Cell ID'' (JStr ''SAT_BROWSER'') JUndefined)]
          \<and> map (\<lambda>h. (timestamp h, content h)) (history s') =
              [(0, ''sh start_extensive_audit.sh''),
               (0, ''[SYSTEM] Starting automated vulnerability research sequence (Non-Root)...''),
               (0, ''Generating invisible SAT_BROWSER EXECUTE COMMAND...''),
               (8000, ''Generating invisible SAT_BROWSER EXECUTE COMMAND...''),
               (16000, ''Generating invisible SAT_BROWSER EXECUTE COMMAND...''),
               (24250, ''Generating invisible SAT_BROWSER EXECUTE COMMAND...''),
               (32250, ''[SYSTEM] Extensive audit sequence completed.''),
               (32250, ''[SYSTEM] Simulation halted by operator.'')]
          \<and> \<not> isRunning s' \<and> intervals s' = [] \<and> intervalRef s' = None)
   \<and> run [Toggle, Elapse 8000, Interval_fires (TimerId 0),
           Elapse 7999, Interval_fires (TimerId 0)] init = None"
  using C7_scripted_run [of init "''SAT_BROWSER''" 8000 8000 8250 8000]
  by (simp add: step_def init_def sched_defs handler_defs)

text \<open>
  Whatever the environment is, the run keeps its schedule and comes to its end: the
  timer calls \<^verbatim>\<open>handleExecuteCommand\<close> at each firing and goes on whether the call
  issues its request or throws at its log line.
\<close>

lemma scripted_run_in_any_environment:
  assumes "\<not> isRunning s" and "intervals s = []"
      and "8000 \<le> d1" and "8000 \<le> d2" and "8000 \<le> d3" and "8000 \<le> d4"
  shows "\<exists>s'. run [Toggle,
                  Elapse d1, Interval_fires (TimerId (timer_count s)),
                  Elapse d2, Interval_fires (TimerId (timer_count s)),
                  Elapse d3, Interval_fires (TimerId (timer_count s)),
                  Elapse d4, Interval_fires (TimerId (timer_count s))] s = Some s'
           \<and> map content (drop (length (history s') - 2) (history s')) =
                [''[SYSTEM] Extensive audit sequence completed.'',
                 ''[SYSTEM] Simulation halted by operator.'']
           \<and> \<not> isRunning s' \<and> intervals s' = [] \<and> intervalRef s' = None"
proof (cases "ToString (stkType s)")
  case (Inl e)
  with assms show ?thesis
    by (simp add: step_def sched_defs handler_defs)
next
  case (Inr env)
  with assms show ?thesis
    by (simp add: step_def sched_defs handler_defs)
qed

subsection \<open>The delayed follow-up\<close>

text \<open>
  When \<^verbatim>\<open>getStkCommandInfo\<close> has succeeded and the result's name can be printed, the
  handler schedules the follow-up 2500 time units ahead exactly when its condition
  \<^verbatim>\<open>isRunning || (!isAuto && !params)\<close> holds, where \<^verbatim>\<open>isRunning\<close> is the binding
  of the handler's render.
\<close>

lemma follow_up_condition:
  "getStkCommandInfo rp = Inr info \<Longrightarrow> get_prop info ''name'' = Inr nm \<Longrightarrow>
   ToString nm = Inr printed \<Longrightarrow>
     timeouts (final (handleExecuteCommand_settle r cmdType isAuto params rp s)) =
       (if r_isRunning r \<or> (\<not> isAuto \<and> \<not> truthy params)
        then timeouts s @ [\<lparr>to_due = now s + 2500, to_cmdType = cmdType\<rparr>]
        else timeouts s)"
  by (simp add: handleExecuteCommand_settle_def final_def handler_defs Let_def)

text \<open>
  \<^verbatim>\<open>toggleSimulation\<close> starts a run only from a render in which \<^verbatim>\<open>isRunning\<close> is
  false, and \<^verbatim>\<open>runNext\<close> calls the \<^verbatim>\<open>handleExecuteCommand\<close> of that render at every
  step. So every timer a toggle arms carries a render that is not running, and a step
  of the script (\<^verbatim>\<open>isAuto\<close> true) never schedules a follow-up, whatever the reply.
\<close>

lemma scripted_render_is_idle:
  "\<forall>iv \<in> set (intervals (toggleSimulation r s)) - set (intervals s). \<not> r_isRunning (iv_render iv)"
  by (cases "intervalRef s")
     (auto simp: toggleSimulation_def startSimulation_def runNext_def autoCommands_def
        handleExecuteCommand_frame setInterval_def stopSimulation_def clearInterval_def
        addLog_def Let_def)

lemma auto_step_schedules_nothing:
  "\<not> r_isRunning r \<Longrightarrow>
     timeouts (final (handleExecuteCommand_settle r cmdType True params rp s)) = timeouts s"
  by (auto simp: handleExecuteCommand_settle_def final_def handler_defs Let_def
        split: sum.splits)

lemma resume_pending:
  "resume k rs s = Some out \<Longrightarrow> pending (final out) = pending s"
  by (induction k rs s rule: resume.induct)
     (auto simp: final_def handleAnalysis_settle_def handleAnalysis_try_def
        handleImportPdu_settle_def handleExecuteCommand_settle_def fetchEducation_settle_def
        followUp_settle_def handler_defs Let_def split: sum.splits prod.splits if_splits)

lemma settle_closure_invariant:
  assumes "closure_invariant s" and "settle i rs s = Some s'"
  shows "closure_invariant s'"
proof -
  let ?s0 = "s\<lparr>pending := take i (pending s) @ drop (Suc i) (pending s)\<rparr>"
  from assms(2) obtain out where out: "resume (pending s ! i) rs ?s0 = Some out" "s' = final out"
    by (auto simp: settle_def split: if_splits)
  have "pending s' = take i (pending s) @ drop (Suc i) (pending s)"
    using resume_pending [OF out(1)] out(2) by simp
  moreover have "intervals s' = intervals s"
    using resume_frame [OF out(1)] out(2) by simp
  moreover have "set (take i (pending s) @ drop (Suc i) (pending s)) \<subseteq> set (pending s)"
    using set_take_subset [of i "pending s"] set_drop_subset [of "Suc i" "pending s"] by auto
  ultimately show ?thesis
    using assms(1) by (auto simp: closure_invariant_def)
qed

lemma act_closure_invariant:
  "closure_invariant s \<Longrightarrow> act e s = Some s' \<Longrightarrow> closure_invariant s'"
proof (cases e)
  case (Settle i rs)
  then show "closure_invariant s \<Longrightarrow> act e s = Some s' \<Longrightarrow> closure_invariant s'"
    using settle_closure_invariant [of s i rs s'] by simp
next
  case (Interval_fires h)
  show "closure_invariant s \<Longrightarrow> act e s = Some s' \<Longrightarrow> closure_invariant s'"
  proof -
    assume inv: "closure_invariant s" and a: "act e s = Some s'"
    from a Interval_fires obtain iv where iv: "find (\<lambda>iv. iv_id iv = h) (intervals s) = Some iv"
      by (auto simp: fire_interval_def split: option.splits)
    then have "iv \<in> set (intervals s)"
      by (auto simp: find_Some_iff)
    with inv have idle: "\<not> r_isRunning (iv_render iv)"
      by (simp add: closure_invariant_def)
    show "closure_invariant s'"
    proof (cases "iv_index iv \<ge> length autoCommands")
      case True
      with inv a Interval_fires iv show ?thesis
        by (auto simp: closure_invariant_def fire_interval_def runNext_def stopSimulation_def
              clearInterval_def addLog_def Let_def split: if_splits option.splits)
    next
      case False
      with inv a Interval_fires iv idle show ?thesis
        using handleExecuteCommand_pending
                [of "iv_render iv" "autoCommands ! iv_index iv" True JUndefined s]
        by (auto simp: closure_invariant_def fire_interval_def runNext_def
              handleExecuteCommand_frame Let_def split: if_splits)
    qed
  qed
next
  case (Timeout_fires i)
  then show "closure_invariant s \<Longrightarrow> act e s = Some s' \<Longrightarrow> closure_invariant s'"
    by (auto simp: closure_invariant_def fire_timeout_def followUp_def addLog_def issue_def
          await_def Let_def split: if_splits)
next
  case Toggle
  then show "closure_invariant s \<Longrightarrow> act e s = Some s' \<Longrightarrow> closure_invariant s'"
    using handleExecuteCommand_pending
            [of "render_of s" "autoCommands ! 0" True JUndefined
                "addLog ''[SYSTEM] Starting automated vulnerability research sequence (Non-Root)...''
                   SYS_LOG (addLog ''sh start_extensive_audit.sh'' TERMUX_CMD (s\<lparr>isRunning := True\<rparr>))"]
    by (cases "intervalRef s")
       (auto simp: closure_invariant_def render_of_def toggleSimulation_def startSimulation_def
          runNext_def autoCommands_def handleExecuteCommand_frame setInterval_def
          stopSimulation_def clearInterval_def addLog_def Let_def split: if_splits)
next
  case Reset
  then show "closure_invariant s \<Longrightarrow> act e s = Some s' \<Longrightarrow> closure_invariant s'"
    by (cases "intervalRef s")
       (auto simp: closure_invariant_def render_of_def clearHistory_def
          stopSimulation_def clearInterval_def addLog_def Let_def split: if_splits)
next
  case Submit_builder
  then show "closure_invariant s \<Longrightarrow> act e s = Some s' \<Longrightarrow> closure_invariant s'"
    using handleBuilderSubmit_pending [of "render_of s" s]
    by (auto simp: closure_invariant_def handleBuilderSubmit_frame)
qed (auto simp: closure_invariant_def render_of_def handleAnalysis_def handleImportPdu_def
       fetchEducation_def applyExample_def addLog_def issue_def await_def Let_def
       split: if_splits)

lemma run_closure_invariant:
  "closure_invariant s \<Longrightarrow> run es s = Some s' \<Longrightarrow> closure_invariant s'"
proof (induction es arbitrary: s)
  case Nil
  then show ?case by simp
next
  case (Cons e es)
  then show ?case
    by (auto simp: step_def split: option.splits if_splits dest: act_closure_invariant)
qed

text \<open>
  So in no session does the settling of a scripted step schedule a follow-up.
\<close>

lemma scripted_steps_never_schedule:
  assumes "run es init = Some s"
      and "i < length (pending s)" and "pending s ! i = ExecuteCall r cmdType True params"
      and "step (Settle i [rp]) s = Some s'"
  shows "timeouts s' = timeouts s"
proof -
  have "closure_invariant s"
    using run_closure_invariant [of init es s] assms(1)
    by (simp add: closure_invariant_def init_def)
  moreover have "pending s ! i \<in> set (pending s)"
    using assms(2) by (rule nth_mem)
  ultimately have "scripted_idle (pending s ! i)"
    by (simp add: closure_invariant_def)
  then have "\<not> r_isRunning r"
    using assms(3) by simp
  with assms(2,3,4) show ?thesis
    using auto_step_schedules_nothing
            [of r cmdType params rp "s\<lparr>pending := take i (pending s) @ drop (Suc i) (pending s)\<rparr>"]
    by (auto simp: step_def settle_def)
qed

text \<open>
  C8 says that after a successful execute-command the follow-up is scheduled if and only
  if a scripted run is active or the call was interactive without parameters. The code
  breaks this for the steps of the scripted run itself. In the session below the
  operator starts the run and the service answers step 0 with a command: the run is
  active and the command was generated (the result is stored and ``STK payload ready''
  is logged), and no follow-up is scheduled.
\<close>

theorem C8_scripted_step_without_follow_up:
  "(case run [Toggle,
              Settle 0 [Answered (Json ''{\"name\":\"PROVIDE LOCAL INFORMATION\",\"payload\":\"D0\"}''
                 (JObj [(''name'', JStr ''PROVIDE LOCAL INFORMATION''), (''payload'', JStr ''D0'')]))]] init of
      None \<Rightarrow> False
    | Some s \<Rightarrow>
        isRunning s
        \<and> stkCommand s = JObj [(''name'', JStr ''PROVIDE LOCAL INFORMATION''), (''payload'', JStr ''D0'')]
        \<and> map content (history s) =
            [''sh start_extensive_audit.sh'',
             ''[SYSTEM] Starting automated vulnerability research sequence (Non-Root)...'',
             ''Generating invisible SAT_BROWSER EXECUTE COMMAND...'',
             ''STK payload ready: PROVIDE LOCAL INFORMATION'']
        \<and> timeouts s = [])"
  by (simp add: step_def init_def sched_defs settle_def final_def
        handleExecuteCommand_settle_def getStkCommandInfo_def handler_defs)

text \<open>
  The second half of C8 holds: nothing cancels a follow-up once it is scheduled. Neither
  a reset nor a stop touches the one-shot timers, and in the session below a follow-up
  scheduled by a builder submission during a run fires after the reset that stopped
  the run.
\<close>

lemma follow_up_is_never_cancelled:
  "timeouts (clearHistory r s) = timeouts s \<and> timeouts (stopSimulation s) = timeouts s
   \<and> timeouts (toggleSimulation r s) = timeouts s"
  by (cases "intervalRef s")
     (simp_all add: clearHistory_def toggleSimulation_def startSimulation_def runNext_def
        autoCommands_def handleExecuteCommand_frame setInterval_def stopSimulation_def
        clearInterval_def addLog_def Let_def)

lemma follow_up_after_reset:
  "(case run [Toggle, Select_tab Stk, Submit_builder,
              Settle 1 [Answered (Json ''{\"name\":\"DISPLAY TEXT\"}'' (JObj [(''name'', JStr ''DISPLAY TEXT'')]))],
              Reset, Elapse 2500, Timeout_fires 0] init of
      None \<Rightarrow> False
    | Some s \<Rightarrow>
        \<not> isRunning s \<and> timeouts s = []
        \<and> map content (history s) =
            [''[SYSTEM] Simulation halted by operator.'',
             ''[INTERCEPT] Incoming silent recovery SMS from target...'']
        \<and> map fst (issued s) = [0, 0, 2500])"
  by (simp add: step_def init_def sched_defs settle_def final_def
        handleExecuteCommand_settle_def handleBuilderSubmit_def clearHistory_def
        fire_timeout_def followUp_def getStkCommandInfo_def handler_defs)

subsection \<open>Presets\<close>

text \<open>
  C9: for every state, applying the preset ``Simjacker Location'' selects the builder
  tab, sets the environment to \<^verbatim>\<open>SAT_BROWSER\<close> and writes the preset's
  \<^verbatim>\<open>commandType\<close>, \<^verbatim>\<open>displayText\<close> and \<^verbatim>\<open>urlOrData\<close> into the builder
  parameters; every other field of the parameters, \<^verbatim>\<open>pinOrPassword\<close> among them, reads
  as it did before.
\<close>

theorem C9_simjacker_preset:
  "ex_name (educationalExamples ! 2) = ''Simjacker Location''
   \<and> (\<exists>s'. step (Example 2) s = Some s'
        \<and> activeTab s' = Stk
        \<and> stkType s' = JStr ''SAT_BROWSER''
        \<and> get_opt (JObj (builderParams s')) ''commandType'' = JStr ''PROVIDE LOCAL INFO''
        \<and> get_opt (JObj (builderParams s')) ''displayText'' = JStr ''Get Location''
        \<and> get_opt (JObj (builderParams s')) ''urlOrData'' = JStr ''MCC/MNC/LAC/CellID''
        \<and> get_opt (JObj (builderParams s')) ''pinOrPassword''
            = get_opt (JObj (builderParams s)) ''pinOrPassword''
        \<and> (\<forall>k. k \<notin> {''commandType'', ''displayText'', ''urlOrData''} \<longrightarrow>
              get_opt (JObj (builderParams s')) k = get_opt (JObj (builderParams s)) k))"
  by (simp add: step_def educationalExamples_def applyExample_def render_of_def
        maybe_string_def addLog_def get_opt_def map_of_put Let_def)

theorem C9_simjacker_preset_witness:
  "(case run [Select_tab Stk, Edit_builder ''pinOrPassword'' ''1234'',
              Edit_builder ''targetNumber'' ''+15550100'', Select_stkType ''WIB'',
              Select_tab Analyzer] init of
      None \<Rightarrow> False
    | Some s \<Rightarrow>
        ''pinOrPassword'' \<notin> {''commandType'', ''displayText'', ''urlOrData''}
        \<and> get_opt (JObj (builderParams s)) ''pinOrPassword'' = JStr ''1234''
        \<and> activeTab s = Analyzer \<and> stkType s = JStr ''WIB''
        \<and> (case step (Example 2) s of
              None \<Rightarrow> False
            | Some s' \<Rightarrow>
                activeTab s' = Stk \<and> stkType s' = JStr ''SAT_BROWSER''
                \<and> builderParams s' =
                     [(''commandType'', JStr ''PROVIDE LOCAL INFO''),
                      (''displayText'', JStr ''Get Location''),
                      (''targetNumber'', JStr ''+15550100''),
                      (''urlOrData'', JStr ''MCC/MNC/LAC/CellID''),
                      (''pinOrPassword'', JStr ''1234'')]))"
  using C9_simjacker_preset
    [of "the (run [Select_tab Stk, Edit_builder ''pinOrPassword'' ''1234'',
                   Edit_builder ''targetNumber'' ''+15550100'', Select_stkType ''WIB'',
                   Select_tab Analyzer] init)"]
  by (simp add: step_def init_def render_of_def educationalExamples_def applyExample_def
        maybe_string_def addLog_def get_opt_def Let_def)

subsection \<open>A failed analysis\<close>

text \<open>
  C10: submitting an analysis (with an input that is not blank) clears the current
  AnalysisResult and DecodedPdu at once, while its two calls are still unsettled; and
  if one of the two calls then fails, the handler logs the failure, clears the in-flight
  flag and leaves both results absent: what was current before the submission is not
  restored.
\<close>

theorem C10_analysis_cleared:
  assumes "activeTab s = Analyzer" and "trim (pduInput s) \<noteq> []"
      and "ra = Rejected \<or> rd = Rejected"
  shows "\<exists>s1 s2. step Exec s = Some s1
           \<and> currentAnalysis s1 = JNull \<and> decodedPdu s1 = JNull
           \<and> pending s1 = pending s @ [AnalysisCall]
           \<and> step (Settle (length (pending s)) [ra, rd]) s1 = Some s2
           \<and> currentAnalysis s2 = JNull \<and> decodedPdu s2 = JNull
           \<and> \<not> isAnalyzing s2
           \<and> history s2 = history s1 @
               [\<lparr>timestamp = now s1, item_type = SYS_LOG, content = ''ERR: Analysis failed.''\<rparr>]"
  using assms
  by (auto simp: step_def handleAnalysis_def render_of_def settle_def final_def
        handleAnalysis_settle_def analyzePduVulnerability_def decodePdu_def
        handler_defs Let_def nth_append split: reply.splits sum.splits)

theorem C10_analysis_cleared_witness:
  "(case run [Type_pduInput ''0791'', Exec,
              Settle 0 [Answered (Json ''{\"riskLevel\":\"High\"}'' (JObj [(''riskLevel'', JStr ''High'')])),
                        Answered (Json ''{\"components\":[]}'' (JObj [(''components'', JArr [])]))]] init of
      None \<Rightarrow> False
    | Some s \<Rightarrow>
        activeTab s = Analyzer \<and> trim (pduInput s) \<noteq> []
        \<and> currentAnalysis s = JObj [(''riskLevel'', JStr ''High'')]
        \<and> decodedPdu s = JObj [(''components'', JArr [])]
        \<and> (case run [Exec, Settle 0 [Rejected, Answered (Json ''{\"components\":[]}'' (JObj [(''components'', JArr [])]))]] s of
              None \<Rightarrow> False
            | Some s2 \<Rightarrow>
                currentAnalysis s2 = JNull \<and> decodedPdu s2 = JNull \<and> \<not> isAnalyzing s2
                \<and> map content (history s2) =
                    [''pkg install sms-utils && python3 pdu_parse.py --hex 0791...'',
                     ''[ANALYZING] Probing for protocol anomalies...'',
                     ''Scan complete. Risk: High.'',
                     ''[DECODED] Bitstream parsed into 0 components.'',
                     ''pkg install sms-utils && python3 pdu_parse.py --hex 0791...'',
                     ''[ANALYZING] Probing for protocol anomalies...'',
                     ''ERR: Analysis failed.'']))"
  using C10_analysis_cleared
    [of "the (run [Type_pduInput ''0791'', Exec,
              Settle 0 [Answered (Json ''{\"riskLevel\":\"High\"}'' (JObj [(''riskLevel'', JStr ''High'')])),
                        Answered (Json ''{\"components\":[]}'' (JObj [(''components'', JArr [])]))]] init)"
        Rejected "Answered (Json ''{\"components\":[]}'' (JObj [(''components'', JArr [])]))"]
  by (simp add: step_def init_def render_of_def handleAnalysis_def settle_def final_def
        handleAnalysis_settle_def handleAnalysis_try_def analyzePduVulnerability_def
        decodePdu_def handler_defs trim_0791 get_opt_def decimal.simps Let_def)

end
